theory Spec2Isabelle
  imports Complex_Main "HOL-Library.List_Lexorder" "HOL-Library.Char_ord"
begin

section \<open>JavaScript values and built-ins\<close>

text \<open>
  The recommendation service and the catalogue client are JavaScript. Numbers are
  modelled as rationals (every rating, count and year the code handles is a short
  decimal), strings as lists of 8-bit characters (ASCII; the two Turkish letters of the
  genre tables are given by their Latin-1 codes), \<open>undefined\<close> and \<open>null\<close> of an optional
  field as \<open>None\<close>, and a thrown \<open>TypeError\<close> as the left injection of a sum.
  The built-ins below cover what the services call: truthiness, \<open>parseFloat\<close>,
  \<open>parseInt\<close>, \<open>String\<close>, \<open>toLowerCase\<close>, \<open>trim\<close>, \<open>includes\<close>, \<open>startsWith\<close> and the
  insertion-ordered \<open>Set\<close>. \<open>parseFloat\<close> and \<open>parseInt\<close> read an optional sign and
  decimal digits (no exponent, no \<open>Infinity\<close>, no hexadecimal); \<open>toLowerCase\<close> maps
  the letters A to Z.
\<close>

named_theorems js_simps

datatype error = TypeError

text \<open>An id or a year: an integer or a string.\<close>

datatype jsatom = IntV int | StrV string

text \<open>A rating field: absent, a number or a string.\<close>

datatype jsval = Absent | Num rat | Str string

fun truthy :: "jsval \<Rightarrow> bool" where
  "truthy Absent = False"
| "truthy (Num r) = (r \<noteq> 0)"
| "truthy (Str s) = (s \<noteq> [])"

fun truthyId :: "jsatom option \<Rightarrow> bool" where
  "truthyId None = False"
| "truthyId (Some (IntV n)) = (n \<noteq> 0)"
| "truthyId (Some (StrV s)) = (s \<noteq> [])"

fun truthyStr :: "string option \<Rightarrow> bool" where
  "truthyStr None = False"
| "truthyStr (Some s) = (s \<noteq> [])"

definition isSpace :: "char \<Rightarrow> bool" where [js_simps]:
  "isSpace c = (c \<in> set [CHR '' '', CHR 0x09, CHR 0x0A, CHR 0x0B, CHR 0x0C, CHR 0x0D])"

definition digitOf :: "char \<Rightarrow> nat option" where [js_simps]:
  "digitOf c = map_of (zip ''0123456789'' [0, 1, 2, 3, 4, 5, 6, 7, 8, 9]) c"

fun takeDigits :: "string \<Rightarrow> nat list \<times> string" where
  "takeDigits [] = ([], [])"
| "takeDigits (c # cs) =
     (case digitOf c of
        None \<Rightarrow> ([], c # cs)
      | Some d \<Rightarrow> (case takeDigits cs of (ds, rest) \<Rightarrow> (d # ds, rest)))"

definition digitsValue :: "nat list \<Rightarrow> nat" where [js_simps]:
  "digitsValue ds = foldl (\<lambda>a d. 10 * a + d) 0 ds"

definition parseUnsigned :: "string \<Rightarrow> rat option" where [js_simps]:
  "parseUnsigned s =
     (case takeDigits s of (ip, r1) \<Rightarrow>
        (case (case r1 of [] \<Rightarrow> ([], [])
                | c # cs \<Rightarrow> if c = CHR ''.'' then takeDigits cs else ([], r1)) of
           (fp, r2) \<Rightarrow>
             if ip = [] \<and> fp = [] then None
             else Some (of_nat (digitsValue ip) + of_nat (digitsValue fp) / 10 ^ length fp)))"

definition parseFloatStr :: "string \<Rightarrow> rat option" where [js_simps]:
  "parseFloatStr s =
     (case dropWhile isSpace s of
        [] \<Rightarrow> None
      | c # cs \<Rightarrow>
          if c = CHR ''-'' then map_option uminus (parseUnsigned cs)
          else if c = CHR ''+'' then parseUnsigned cs
          else parseUnsigned (c # cs))"

text \<open>\<open>parseFloat(x)\<close>; \<open>None\<close> is \<open>NaN\<close>.\<close>

fun parseFloat :: "jsval \<Rightarrow> rat option" where
  "parseFloat Absent = None"
| "parseFloat (Num r) = Some r"
| "parseFloat (Str s) = parseFloatStr s"

definition parseIntStr :: "string \<Rightarrow> int option" where [js_simps]:
  "parseIntStr s =
     (case dropWhile isSpace s of
        [] \<Rightarrow> None
      | c # cs \<Rightarrow>
          (case takeDigits (if c = CHR ''-'' \<or> c = CHR ''+'' then cs else c # cs) of
             (ds, rest) \<Rightarrow>
               if ds = [] then None
               else Some (if c = CHR ''-'' then - int (digitsValue ds) else int (digitsValue ds))))"

text \<open>\<open>parseInt(x)\<close> of an integer or a string; \<open>None\<close> is \<open>NaN\<close>.\<close>

fun parseInt :: "jsatom option \<Rightarrow> int option" where
  "parseInt None = None"
| "parseInt (Some (IntV n)) = Some n"
| "parseInt (Some (StrV s)) = parseIntStr s"

definition digitChar :: "nat \<Rightarrow> char" where [js_simps]:
  "digitChar d = ''0123456789'' ! (d mod 10)"

fun showNat :: "nat \<Rightarrow> string" where
  "showNat n = (if n < 10 then [digitChar n] else showNat (n div 10) @ [digitChar n])"

declare showNat.simps [simp del]

definition showInt :: "int \<Rightarrow> string" where [js_simps]:
  "showInt i = (if i < 0 then CHR ''-'' # showNat (nat (- i)) else showNat (nat i))"

text \<open>\<open>String(x)\<close>, and \<open>x\<close> inside a template literal.\<close>

fun String :: "jsatom option \<Rightarrow> string" where
  "String None = ''undefined''"
| "String (Some (IntV n)) = showInt n"
| "String (Some (StrV s)) = s"

definition toLowerChar :: "char \<Rightarrow> char" where [js_simps]:
  "toLowerChar c =
     (case map_of (zip ''ABCDEFGHIJKLMNOPQRSTUVWXYZ'' ''abcdefghijklmnopqrstuvwxyz'') c of
        None \<Rightarrow> c
      | Some d \<Rightarrow> d)"

definition toLowerCase :: "string \<Rightarrow> string" where [js_simps]:
  "toLowerCase s = map toLowerChar s"

definition trim :: "string \<Rightarrow> string" where [js_simps]:
  "trim s = rev (dropWhile isSpace (rev (dropWhile isSpace s)))"

definition isWordChar :: "char \<Rightarrow> bool" where [js_simps]:
  "isWordChar c =
     (c \<in> set ''abcdefghijklmnopqrstuvwxyzABCDEFGHIJKLMNOPQRSTUVWXYZ0123456789_'')"

fun startsWith :: "string \<Rightarrow> string \<Rightarrow> bool" where
  "startsWith s [] = True"
| "startsWith [] (p # ps) = False"
| "startsWith (c # cs) (p # ps) = (c = p \<and> startsWith cs ps)"

text \<open>\<open>s.includes(p)\<close>: \<open>p\<close> occurs in \<open>s\<close>.\<close>

fun includesStr :: "string \<Rightarrow> string \<Rightarrow> bool" where
  "includesStr [] p = (p = [])"
| "includesStr (c # cs) p = (startsWith (c # cs) p \<or> includesStr cs p)"

text \<open>
  A \<open>Set\<close> keeps its members in insertion order, each once: \<open>setAdd\<close> is \<open>add\<close>,
  \<open>newSet xs\<close> is \<open>new Set(xs)\<close>, and \<open>has\<close> is membership in the list.
\<close>

definition setAdd :: "'a list \<Rightarrow> 'a \<Rightarrow> 'a list" where [js_simps]:
  "setAdd s x = (if x \<in> set s then s else s @ [x])"

definition newSet :: "'a list \<Rightarrow> 'a list" where [js_simps]:
  "newSet xs = foldl setAdd [] xs"

text \<open>\<open>xs || []\<close> of an array that may be \<open>null\<close>.\<close>

fun orEmpty :: "'a list option \<Rightarrow> 'a list" where
  "orEmpty None = []"
| "orEmpty (Some xs) = xs"

section \<open>Movies and preference profiles\<close>

text \<open>
  A movie object, local or converted from the catalogue, with the fields the services
  read. \<open>localData\<close> is the local record a normalised local movie was made from.
\<close>

datatype movie = Movie
  (mid : "jsatom option")
  (tmdbId : "jsatom option")
  (title : "string option")
  (year : "jsatom option")
  (release_date : "string option")
  (genre : "string option")
  (genre_ids : "int list option")
  (director : "string option")
  (cast : "string list option")
  (imdb : jsval)
  (vote_average : "rat option")
  (original_language : "string option")
  (localData : "movie option")

text \<open>
  The profile object of \<open>extractUserPreferences\<close> and, with its three name lists turned
  into sets of normalised names, of \<open>precomputePreferences\<close>. A frequency object is an
  association list in insertion order. The profile of an empty history has no
  \<open>userAvgRating\<close> and no frequency fields: reading them gives \<open>undefined\<close>, which
  \<open>precomputePreferences\<close> replaces by \<open>null\<close> and \<open>{}\<close>; they are \<open>None\<close> and \<open>[]\<close> here.
\<close>

record preferences =
  genres :: "string list"
  directors :: "string list"
  actors :: "string list"
  minRating :: rat
  userAvgRating :: "rat option"
  genreFrequency :: "(string \<times> nat) list"
  directorFrequency :: "(string \<times> nat) list"
  actorFrequency :: "(string \<times> nat) list"

section \<open>The scoring engine\<close>

definition normalizeString :: "string option \<Rightarrow> string" where [js_simps]:
  "normalizeString str =
     (case str of
        None \<Rightarrow> []
      | Some s \<Rightarrow>
          if s = [] then []
          else filter (\<lambda>c. isWordChar c \<or> isSpace c) (trim (toLowerCase s)))"

definition precomputePreferences :: "preferences \<Rightarrow> preferences" where [js_simps]:
  "precomputePreferences p =
     p\<lparr>genres := newSet (map (\<lambda>g. normalizeString (Some g)) (genres p)),
       directors := newSet (map (\<lambda>d. normalizeString (Some d)) (directors p)),
       actors := newSet (map (\<lambda>a. normalizeString (Some a)) (actors p)),
       userAvgRating := (case userAvgRating p of
                           None \<Rightarrow> None
                         | Some r \<Rightarrow> if r = 0 then None else Some r)\<rparr>"

definition genresMatch :: "string option \<Rightarrow> string list \<Rightarrow> bool" where [js_simps]:
  "genresMatch movieGenre precomputedGenres =
     (if precomputedGenres = [] \<or> \<not> truthyStr movieGenre then False
      else normalizeString movieGenre \<in> set precomputedGenres)"

definition directorMatches :: "string option \<Rightarrow> string list \<Rightarrow> bool" where [js_simps]:
  "directorMatches movieDirector precomputedDirectors =
     (if precomputedDirectors = [] \<or> \<not> truthyStr movieDirector then False
      else normalizeString movieDirector \<in> set precomputedDirectors)"

definition actorMatches :: "string list option \<Rightarrow> string list \<Rightarrow> bool" where [js_simps]:
  "actorMatches movieCast precomputedActors =
     (case movieCast of
        None \<Rightarrow> False
      | Some cs \<Rightarrow>
          if cs = [] then False
          else if precomputedActors = [] then False
          else list_ex (\<lambda>actor. actor \<in> set (newSet (map (\<lambda>a. normalizeString (Some a)) cs)))
                 precomputedActors)"

definition getMovieRating :: "movie \<Rightarrow> rat" where [js_simps]:
  "getMovieRating m =
     (case (if truthy (imdb m) then parseFloat (imdb m) else None) of
        Some r \<Rightarrow> r
      | None \<Rightarrow>
          (case vote_average m of
             None \<Rightarrow> 0
           | Some v \<Rightarrow> if v = 0 then 0 else v))"

text \<open>\<open>frequency?.[key] || 1\<close>.\<close>

definition weightOf :: "(string \<times> nat) list \<Rightarrow> string \<Rightarrow> rat" where [js_simps]:
  "weightOf frequency k =
     (case map_of frequency k of
        None \<Rightarrow> 1
      | Some n \<Rightarrow> if n = 0 then 1 else of_nat n)"

text \<open>
  The first profile actor, in the set's order, that is in the normalised cast, and then
  the first cast member whose normalised name is that actor.
\<close>

definition matchedActor :: "string list \<Rightarrow> string list \<Rightarrow> string option" where [js_simps]:
  "matchedActor cs precomputedActors =
     (case List.find (\<lambda>actor. actor \<in> set (newSet (map (\<lambda>a. normalizeString (Some a)) cs)))
             precomputedActors of
        None \<Rightarrow> None
      | Some actor \<Rightarrow> List.find (\<lambda>a. normalizeString (Some a) = actor) cs)"

record breakdown =
  genreHighScore :: bool
  genreMatch :: bool
  directorMatch :: bool
  actorMatch :: bool
  multipleMatches :: bool

record scoring =
  score :: rat
  rating :: rat
  matchCount :: nat
  breakdown :: breakdown

text \<open>The points of the three criteria, from the match flags and the rating.\<close>

definition genrePoints :: "bool \<Rightarrow> rat \<Rightarrow> movie \<Rightarrow> preferences \<Rightarrow> rat" where [js_simps]:
  "genrePoints gMatch r m prefs =
     (if gMatch
      then (if 8 \<le> r then 100 else 50)
             * min (weightOf (genreFrequency prefs) (case genre m of None \<Rightarrow> [] | Some g \<Rightarrow> g)) 2
      else 0)"

definition directorPoints :: "bool \<Rightarrow> movie \<Rightarrow> preferences \<Rightarrow> rat" where [js_simps]:
  "directorPoints dMatch m prefs =
     (if dMatch
      then 30 * min (weightOf (directorFrequency prefs)
                       (case director m of None \<Rightarrow> [] | Some d \<Rightarrow> d)) (3 / 2)
      else 0)"

definition actorPoints :: "bool \<Rightarrow> movie \<Rightarrow> preferences \<Rightarrow> rat" where [js_simps]:
  "actorPoints aMatch m prefs =
     (if aMatch
      then 20 * min (case matchedActor (case cast m of None \<Rightarrow> [] | Some cs \<Rightarrow> cs) (actors prefs) of
                       None \<Rightarrow> 1
                     | Some a \<Rightarrow> if a = [] then 1 else weightOf (actorFrequency prefs) a) (3 / 2)
      else 0)"

definition countMatches :: "bool \<Rightarrow> bool \<Rightarrow> bool \<Rightarrow> nat" where [js_simps]:
  "countMatches gMatch dMatch aMatch =
     (if gMatch then 1 else 0) + (if dMatch then 1 else 0) + (if aMatch then 1 else 0)"

definition multipleMatchBonus :: "nat \<Rightarrow> rat" where [js_simps]:
  "multipleMatchBonus n = (if 2 \<le> n then 25 else 0) + (if 3 \<le> n then 50 else 0)"

definition proximityBonus :: "rat \<Rightarrow> preferences \<Rightarrow> rat" where [js_simps]:
  "proximityBonus r prefs =
     (case userAvgRating prefs of
        None \<Rightarrow> 0
      | Some u \<Rightarrow>
          if u = 0 then 0
          else if \<bar>r - u\<bar> \<le> 1 / 2 then 15
          else if \<bar>r - u\<bar> \<le> 1 then 10
          else 0)"

text \<open>
  The recency bonus reads the clock: \<open>currentYear\<close> is \<open>new Date().getFullYear()\<close> at the
  time of the call.
\<close>

definition recencyBonus :: "int \<Rightarrow> movie \<Rightarrow> rat" where [js_simps]:
  "recencyBonus currentYear m =
     (if truthyId (year m)
      then (case parseInt (year m) of
              None \<Rightarrow> 0
            | Some movieYear \<Rightarrow>
                if currentYear - movieYear \<le> 5 then 5
                else if currentYear - movieYear \<le> 10 then 3
                else 0)
      else 0)"

definition calculateRecommendationScore :: "int \<Rightarrow> movie \<Rightarrow> preferences \<Rightarrow> scoring" where [js_simps]:
  "calculateRecommendationScore currentYear m precomputedPrefs =
     (let r = getMovieRating m;
          gMatch = genresMatch (genre m) (genres precomputedPrefs);
          dMatch = directorMatches (director m) (directors precomputedPrefs);
          aMatch = actorMatches (cast m) (actors precomputedPrefs);
          n = countMatches gMatch dMatch aMatch
      in \<lparr>score = genrePoints gMatch r m precomputedPrefs + directorPoints dMatch m precomputedPrefs
                   + actorPoints aMatch m precomputedPrefs + multipleMatchBonus n
                   + proximityBonus r precomputedPrefs + recencyBonus currentYear m,
          rating = r,
          matchCount = n,
          breakdown =
            \<lparr>genreHighScore = (gMatch \<and> 8 \<le> r),
             genreMatch = (gMatch \<and> r < 8),
             directorMatch = dMatch,
             actorMatch = aMatch,
             multipleMatches = (2 \<le> n)\<rparr>\<rparr>)"

section \<open>The preference extractor\<close>

text \<open>
  An entry of the watched history is a bare id or a movie object. \<open>userRatings\<close> is an
  object from movie ids to numbers, given by its entries in property order.
\<close>

datatype watched = WId jsatom | WObj movie

text \<open>
  The memoisation key is \<open>JSON.stringify\<close> of an object of three sorted arrays; the model
  keeps the object. The default \<open>sort()\<close> orders by the elements' strings and puts
  \<open>undefined\<close> last; an object's string is \<open>[object Object]\<close>.
\<close>

record cacheKey =
  favIds :: "jsatom option list"
  watchedIds :: "watched list"
  ratingKeys :: "string list"

definition sortIds :: "jsatom option list \<Rightarrow> jsatom option list" where [js_simps]:
  "sortIds xs = sort_key String (filter (\<lambda>x. x \<noteq> None) xs) @ filter (\<lambda>x. x = None) xs"

fun watchedString :: "watched \<Rightarrow> string" where
  "watchedString (WId i) = String (Some i)"
| "watchedString (WObj m) = ''[object Object]''"

text \<open>\<open>typeof m === 'object' && m.id ? m.id : m\<close>.\<close>

fun watchedKey :: "watched \<Rightarrow> watched" where
  "watchedKey (WId i) = WId i"
| "watchedKey (WObj m) = (case mid m of
                            None \<Rightarrow> WObj m
                          | Some i \<Rightarrow> if truthyId (Some i) then WId i else WObj m)"

definition makeCacheKey :: "movie list \<Rightarrow> watched list \<Rightarrow> (string \<times> rat) list \<Rightarrow> cacheKey" where
  "makeCacheKey favorites watchedMovies userRatings =
     \<lparr>favIds = sortIds (map mid favorites),
      watchedIds = sort_key watchedString (map watchedKey watchedMovies),
      ratingKeys = sort (map fst userRatings)\<rparr>"

text \<open>
  A watched entry becomes a movie: an object with a title is itself, anything else is
  looked up in \<open>allMovies\<close> by \<open>m.id === item || m.tmdbId === item\<close> (an object is
  never equal to an id), and what is not found is dropped.
\<close>

fun resolveWatched :: "movie list \<Rightarrow> watched \<Rightarrow> movie option" where
  "resolveWatched allMovies (WObj m) = (if truthyStr (title m) then Some m else None)"
| "resolveWatched allMovies (WId i) =
     List.find (\<lambda>m. mid m = Some i \<or> tmdbId m = Some i) allMovies"

definition watchedMoviesData :: "movie list \<Rightarrow> watched list \<Rightarrow> movie list" where
  "watchedMoviesData allMovies watchedMovies =
     List.map_filter (resolveWatched allMovies) watchedMovies"

text \<open>\<open>frequency[k] = (frequency[k] || 0) + 1\<close>.\<close>

fun bump :: "(string \<times> nat) list \<Rightarrow> string \<Rightarrow> (string \<times> nat) list" where
  "bump [] k = [(k, 1)]"
| "bump ((k', n) # rest) k = (if k' = k then (k', n + 1) # rest else (k', n) # bump rest k)"

definition truthyField :: "(movie \<Rightarrow> string option) \<Rightarrow> movie list \<Rightarrow> string list" where
  "truthyField f ms = List.map_filter (\<lambda>m. if truthyStr (f m) then f m else None) ms"

definition castMembers :: "movie list \<Rightarrow> string list" where
  "castMembers ms = concat (map (\<lambda>m. case cast m of None \<Rightarrow> [] | Some cs \<Rightarrow> cs) ms)"

text \<open>The ratings of a list of movies: \<open>parseFloat(m.imdb)\<close>, kept when a number above 0.\<close>

definition imdbRatings :: "movie list \<Rightarrow> rat list" where
  "imdbRatings ms =
     List.map_filter (\<lambda>m. case parseFloat (imdb m) of
                             None \<Rightarrow> None
                           | Some r \<Rightarrow> if 0 < r then Some r else None) ms"

definition favoriteRatings :: "movie list \<Rightarrow> rat list" where
  "favoriteRatings favorites = map (\<lambda>r. r * (3 / 2)) (imdbRatings favorites)"

definition avgRating :: "rat list \<Rightarrow> rat list \<Rightarrow> rat" where
  "avgRating favRs watchedRs =
     (if favRs @ watchedRs = [] then 8
      else sum_list (favRs @ watchedRs) / of_nat (length (favRs @ watchedRs)))"

definition normalizedAvgRating :: "rat list \<Rightarrow> rat list \<Rightarrow> rat" where
  "normalizedAvgRating favRs watchedRs =
     (if favRs \<noteq> [] \<and> watchedRs \<noteq> []
      then (sum_list favRs / (3 / 2) + sum_list watchedRs)
             / (of_nat (length favRs) / (3 / 2) + of_nat (length watchedRs))
      else avgRating favRs watchedRs)"

definition userRatingValues :: "(string \<times> rat) list \<Rightarrow> rat list" where
  "userRatingValues userRatings = filter (\<lambda>r. 1 / 2 \<le> r \<and> r \<le> 5) (map snd userRatings)"

definition effectiveAvgRating :: "movie list \<Rightarrow> movie list \<Rightarrow> (string \<times> rat) list \<Rightarrow> rat" where
  "effectiveAvgRating favorites watchedData userRatings =
     (let vs = userRatingValues userRatings
      in if vs \<noteq> [] then sum_list vs / of_nat (length vs)
         else normalizedAvgRating (favoriteRatings favorites) (imdbRatings watchedData))"

text \<open>The profile of a non-empty working set.\<close>

definition buildPreferences :: "movie list \<Rightarrow> movie list \<Rightarrow> (string \<times> rat) list \<Rightarrow> preferences" where
  "buildPreferences favorites watchedData userRatings =
     (let gs = truthyField genre (favorites @ watchedData);
          ds = truthyField director (favorites @ watchedData);
          cs = castMembers (favorites @ watchedData);
          avg = effectiveAvgRating favorites watchedData userRatings
      in \<lparr>genres = newSet gs,
          directors = newSet ds,
          actors = newSet cs,
          minRating = max (15 / 2) (avg - 1 / 2),
          userAvgRating = Some avg,
          genreFrequency = foldl bump [] gs,
          directorFrequency = foldl bump [] ds,
          actorFrequency = foldl bump [] cs\<rparr>)"

definition emptyPreferences :: preferences where
  "emptyPreferences =
     \<lparr>genres = [], directors = [], actors = [], minRating = 0, userAvgRating = None,
      genreFrequency = [], directorFrequency = [], actorFrequency = []\<rparr>"

text \<open>
  Profile objects live in a heap, and a reference is an index into it, so that "the same
  object" is equality of references. \<open>preferencesCache\<close> is the module's \<open>Map\<close> from
  keys to profile objects.
\<close>

record extractor_state =
  heap :: "preferences list"
  preferencesCache :: "cacheKey \<rightharpoonup> nat"

definition alloc :: "preferences \<Rightarrow> extractor_state \<Rightarrow> nat \<times> extractor_state" where
  "alloc p st = (length (heap st), st\<lparr>heap := heap st @ [p]\<rparr>)"

text \<open>
  \<open>extractUserPreferences(favorites, watchedMovies, allMovies, userRatings)\<close>. The default
  values stand for a missing argument only: a \<open>null\<close> history (\<open>None\<close>) reaches
  \<open>watchedMovies.map\<close>, which throws; \<open>favorites\<close> is read as \<open>favorites || []\<close>.
\<close>

definition extractUserPreferences ::
  "extractor_state \<Rightarrow> movie list option \<Rightarrow> watched list option \<Rightarrow> movie list
     \<Rightarrow> (string \<times> rat) list \<Rightarrow> error + (nat \<times> extractor_state)" where
  "extractUserPreferences st favorites watchedMovies allMovies userRatings =
     (case watchedMovies of
        None \<Rightarrow> Inl TypeError
      | Some ws \<Rightarrow>
          (let favs = orEmpty favorites;
               k = makeCacheKey favs ws userRatings
           in case preferencesCache st k of
                Some r \<Rightarrow> Inr (r, st)
              | None \<Rightarrow>
                  (let watchedData = watchedMoviesData allMovies ws
                   in if favs @ watchedData = [] then Inr (alloc emptyPreferences st)
                      else (case alloc (buildPreferences favs watchedData userRatings) st of
                              (r, st') \<Rightarrow>
                                Inr (r, st'\<lparr>preferencesCache := (preferencesCache st')(k \<mapsto> r)\<rparr>)))))"

section \<open>The recommendation assembler\<close>

text \<open>
  \<open>GENRE_MAP\<close> of the configuration: a display genre has one catalogue genre id, or two
  (a merged category), or \<open>null\<close>.
\<close>

datatype genreEntry = Single int | Merged "int list" | NullEntry

definition GENRE_MAP :: "string \<Rightarrow> genreEntry option" where
  "GENRE_MAP =
     map_of
       [(''Bilim Kurgu'', Merged [878, 14]),
        (''Komedi'', Single 35),
        (''Aksiyon/Macera'', Merged [28, 12]),
        (''Animasyon'', Single 16),
        (''Su'' @ [CHR 0xE7], Single 80),
        (''Drama'', Merged [18, 10749]),
        (''Gizem'', Merged [9648, 53]),
        (''Belgesel'', Single 99),
        (''Korku'', Single 27),
        (''T'' @ [CHR 0xFC] @ ''m Filmler'', NullEntry)]"

text \<open>
  \<open>normalizeLocalToAPI\<close>, without the poster and summary fields. An array entry of
  \<open>GENRE_MAP\<close> is not above 0 and is filtered out of \<open>genre_ids\<close>. The assembler stores
  \<open>director\<close>, \<open>cast || []\<close>, \<open>imdb\<close> and \<open>genre\<close> of the local movie again after the call;
  they are the values this function has already put there.
\<close>

definition normalizeLocalToAPI :: "movie \<Rightarrow> movie" where
  "normalizeLocalToAPI localMovie =
     Movie
       (Some (StrV (''local_'' @ String (mid localMovie))))
       None
       (title localMovie)
       (year localMovie)
       (if truthyId (year localMovie) then Some (String (year localMovie) @ ''-01-01'') else None)
       (genre localMovie)
       (Some (case (case genre localMovie of None \<Rightarrow> None | Some g \<Rightarrow> GENRE_MAP g) of
                Some (Single n) \<Rightarrow> if 0 < n then [n] else []
              | _ \<Rightarrow> []))
       (director localMovie)
       (Some (case cast localMovie of None \<Rightarrow> [] | Some cs \<Rightarrow> cs))
       (imdb localMovie)
       (Some (case parseFloat (imdb localMovie) of None \<Rightarrow> 0 | Some r \<Rightarrow> r))
       None
       (Some localMovie)"

text \<open>
  \<open>mergeLocalAndAPIResults\<close>: a \<open>Map\<close> from lower-case trimmed titles to movies, filled in
  order, the first movie of a title kept. A movie without a title throws.
\<close>

fun mergeInto :: "(string \<times> movie) list \<Rightarrow> movie list \<Rightarrow> error + (string \<times> movie) list" where
  "mergeInto movieMap [] = Inr movieMap"
| "mergeInto movieMap (m # ms) =
     (case title m of
        None \<Rightarrow> Inl TypeError
      | Some t \<Rightarrow>
          mergeInto (if trim (toLowerCase t) \<in> set (map fst movieMap) then movieMap
                     else movieMap @ [(trim (toLowerCase t), m)]) ms)"

definition mergeLocalAndAPIResults :: "movie list \<Rightarrow> movie list \<Rightarrow> error + movie list" where
  "mergeLocalAndAPIResults localMovies apiMovies =
     (case mergeInto [] localMovies of
        Inl e \<Rightarrow> Inl e
      | Inr movieMap \<Rightarrow>
          (case mergeInto movieMap apiMovies of
             Inl e \<Rightarrow> Inl e
           | Inr movieMap' \<Rightarrow> Inr (map snd movieMap')))"

text \<open>
  The candidates: the normalised local movies, merged with the catalogue's movies when
  \<open>useAPI\<close> is set. \<open>apiMovies\<close> is what \<open>fetchAPIRecommendations\<close> resolved to (it
  catches its own failures); a throwing merge is caught and leaves the local movies.
\<close>

definition candidates :: "movie list \<Rightarrow> bool \<Rightarrow> movie list \<Rightarrow> movie list" where
  "candidates localMovies useAPI apiMovies =
     (if useAPI
      then (case mergeLocalAndAPIResults (map normalizeLocalToAPI localMovies) apiMovies of
              Inl e \<Rightarrow> map normalizeLocalToAPI localMovies
            | Inr merged \<Rightarrow> merged)
      else map normalizeLocalToAPI localMovies)"

text \<open>The exclusion sets.\<close>

definition favoriteIds :: "movie list \<Rightarrow> jsatom option list" where
  "favoriteIds favorites = newSet (map mid favorites)"

text \<open>\<open>fav.title.toLowerCase().trim()\<close> of every favourite: one without a title throws.\<close>

fun lowerTitles :: "movie list \<Rightarrow> error + string list" where
  "lowerTitles [] = Inr []"
| "lowerTitles (fav # favs) =
     (case title fav of
        None \<Rightarrow> Inl TypeError
      | Some t \<Rightarrow>
          (case lowerTitles favs of
             Inl e \<Rightarrow> Inl e
           | Inr ts \<Rightarrow> Inr (trim (toLowerCase t) # ts)))"

definition favoriteTitles :: "movie list \<Rightarrow> error + string list" where
  "favoriteTitles favorites =
     (case lowerTitles favorites of Inl e \<Rightarrow> Inl e | Inr ts \<Rightarrow> Inr (newSet ts))"

fun watchedIdString :: "watched \<Rightarrow> string" where
  "watchedIdString (WId i) = String (Some i)"
| "watchedIdString (WObj m) = String (if truthyId (mid m) then mid m else tmdbId m)"

definition watchedIdSet :: "watched list \<Rightarrow> string list" where
  "watchedIdSet watchedMovies = newSet (map watchedIdString watchedMovies)"

fun watchedObjectTitle :: "watched \<Rightarrow> string option" where
  "watchedObjectTitle (WId i) = None"
| "watchedObjectTitle (WObj m) =
     (case title m of None \<Rightarrow> None | Some t \<Rightarrow> if t = [] then None else Some (trim (toLowerCase t)))"

fun watchedLookupTitle :: "movie list \<Rightarrow> watched \<Rightarrow> string option" where
  "watchedLookupTitle allMoviesForLookup (WObj m) = None"
| "watchedLookupTitle allMoviesForLookup (WId i) =
     (case List.find (\<lambda>m. mid m = Some i \<or> tmdbId m = Some i) allMoviesForLookup of
        None \<Rightarrow> None
      | Some m \<Rightarrow>
          (case title m of None \<Rightarrow> None | Some t \<Rightarrow> if t = [] then None else Some (trim (toLowerCase t))))"

definition watchedTitles :: "watched list \<Rightarrow> movie list \<Rightarrow> string list" where
  "watchedTitles watchedMovies allMoviesForLookup =
     foldl setAdd (newSet (List.map_filter watchedObjectTitle watchedMovies))
       (List.map_filter (watchedLookupTitle allMoviesForLookup) watchedMovies)"

text \<open>The forms of a candidate's id and its title, as the scan compares them.\<close>

definition movieId :: "movie \<Rightarrow> string" where
  "movieId m =
     String (if truthyId (mid m) then mid m
             else if truthyId (tmdbId m) then tmdbId m
             else Some (StrV []))"

definition movieTmdbId :: "movie \<Rightarrow> string" where
  "movieTmdbId m = String (if truthyId (tmdbId m) then tmdbId m else Some (StrV []))"

definition numericId :: "movie \<Rightarrow> string" where
  "numericId m = (let i = movieId m in if startsWith i ''tmdb_'' then drop 5 i else i)"

definition movieTitle :: "movie \<Rightarrow> string" where
  "movieTitle m = trim (toLowerCase (case title m of None \<Rightarrow> [] | Some t \<Rightarrow> t))"

definition isFavorite :: "jsatom option list \<Rightarrow> string list \<Rightarrow> movie \<Rightarrow> bool" where
  "isFavorite favIdSet favTitleSet m =
     (mid m \<in> set favIdSet \<or> movieTitle m \<in> set favTitleSet
      \<or> (case localData m of None \<Rightarrow> False | Some l \<Rightarrow> mid l \<in> set favIdSet))"

definition isWatched :: "string list \<Rightarrow> string list \<Rightarrow> movie \<Rightarrow> bool" where
  "isWatched wIdSet wTitleSet m =
     (movieId m \<in> set wIdSet \<or> movieTmdbId m \<in> set wIdSet \<or> numericId m \<in> set wIdSet
      \<or> movieTitle m \<in> set wTitleSet
      \<or> (case localData m of None \<Rightarrow> False | Some l \<Rightarrow> String (mid l) \<in> set wIdSet))"

text \<open>A scored movie: the movie's own fields and the three the scan adds.\<close>

record scored =
  movieOf :: movie
  recommendationScore :: rat
  recommendationRating :: rat
  scoreBreakdown :: breakdown

text \<open>What the scan needs to judge one candidate.\<close>

record scan_context =
  currentYear :: int
  precomputedPrefs :: preferences
  favIdSet :: "jsatom option list"
  favTitleSet :: "string list"
  wIdSet :: "string list"
  wTitleSet :: "string list"

definition scoreMovie :: "scan_context \<Rightarrow> movie \<Rightarrow> scored option" where
  "scoreMovie ctx m =
     (if isFavorite (favIdSet ctx) (favTitleSet ctx) m \<or> isWatched (wIdSet ctx) (wTitleSet ctx) m
      then None
      else (let scoring = calculateRecommendationScore (currentYear ctx) m (precomputedPrefs ctx)
            in if 0 < score scoring
               then Some \<lparr>movieOf = m,
                          recommendationScore = score scoring,
                          recommendationRating = rating scoring,
                          scoreBreakdown = breakdown scoring\<rparr>
               else None))"

text \<open>
  The comparator of both sorts, and \<open>Array.prototype.sort\<close> with a comparator: a stable
  sort, here by insertion from the right.
\<close>

definition compareScored :: "scored \<Rightarrow> scored \<Rightarrow> rat" where
  "compareScored a b =
     (if recommendationScore b \<noteq> recommendationScore a
      then recommendationScore b - recommendationScore a
      else recommendationRating b - recommendationRating a)"

fun insertBy :: "('a \<Rightarrow> 'a \<Rightarrow> rat) \<Rightarrow> 'a \<Rightarrow> 'a list \<Rightarrow> 'a list" where
  "insertBy cmp x [] = [x]"
| "insertBy cmp x (y # ys) = (if cmp x y \<le> 0 then x # y # ys else y # insertBy cmp x ys)"

definition jsSort :: "('a \<Rightarrow> 'a \<Rightarrow> rat) \<Rightarrow> 'a list \<Rightarrow> 'a list" where
  "jsSort cmp xs = foldr (insertBy cmp) xs []"

text \<open>
  The scan over the candidates in batches of 50. After a batch, \<open>2 * limit\<close> scored movies
  or more end the function at once with the sorted list cut to \<open>limit\<close> (\<open>Early\<close>);
  otherwise the loop runs out and the scored movies go on to the final sort (\<open>Complete\<close>).
\<close>

datatype scan = Early "scored list" | Complete "scored list"

function scanBatches :: "scan_context \<Rightarrow> nat \<Rightarrow> movie list \<Rightarrow> scored list \<Rightarrow> scan" where
  "scanBatches ctx limit allMovies scoredMovies =
     (if allMovies = [] then Complete scoredMovies
      else (let scoredMovies' = scoredMovies @ List.map_filter (scoreMovie ctx) (take 50 allMovies)
            in if limit * 2 \<le> length scoredMovies'
               then Early (take limit (jsSort compareScored scoredMovies'))
               else scanBatches ctx limit (drop 50 allMovies) scoredMovies'))"
  by pat_completeness auto
termination
  by (relation "measure (\<lambda>(ctx, limit, allMovies, scoredMovies). length allMovies)") auto

declare scanBatches.simps [simp del]

text \<open>
  The diversity filter over the sorted list. The two counters are \<open>Map\<close>s read with
  \<open>get(k) || 0\<close>: functions with value 0 where nothing is stored. The director's counter
  is raised before the cast is looked at.
\<close>

fun diverseMovies :: "(string \<Rightarrow> nat) \<Rightarrow> (string \<Rightarrow> nat) \<Rightarrow> scored list \<Rightarrow> scored list" where
  "diverseMovies directorCount actorCount [] = []"
| "diverseMovies directorCount actorCount (m # ms) =
     (case (if truthyStr (director (movieOf m)) then director (movieOf m) else None) of
        None \<Rightarrow>
          (case cast (movieOf m) of
             None \<Rightarrow> m # diverseMovies directorCount actorCount ms
           | Some cs \<Rightarrow>
               if cs = [] then m # diverseMovies directorCount actorCount ms
               else if list_ex (\<lambda>actor. 2 \<le> actorCount actor) cs
               then diverseMovies directorCount actorCount ms
               else m # diverseMovies directorCount
                          (foldl (\<lambda>ac actor. ac(actor := ac actor + 1)) actorCount cs) ms)
      | Some d \<Rightarrow>
          if 3 \<le> directorCount d then diverseMovies directorCount actorCount ms
          else
            (case cast (movieOf m) of
               None \<Rightarrow> m # diverseMovies (directorCount(d := directorCount d + 1)) actorCount ms
             | Some cs \<Rightarrow>
                 if cs = [] then m # diverseMovies (directorCount(d := directorCount d + 1)) actorCount ms
                 else if list_ex (\<lambda>actor. 2 \<le> actorCount actor) cs
                 then diverseMovies (directorCount(d := directorCount d + 1)) actorCount ms
                 else m # diverseMovies (directorCount(d := directorCount d + 1))
                            (foldl (\<lambda>ac actor. ac(actor := ac actor + 1)) actorCount cs) ms))"

definition finish :: "nat \<Rightarrow> scan \<Rightarrow> scored list" where
  "finish limit s =
     (case s of
        Early result \<Rightarrow> result
      | Complete scoredMovies \<Rightarrow>
          take limit (diverseMovies (\<lambda>d. 0) (\<lambda>a. 0) (jsSort compareScored scoredMovies)))"

text \<open>
  \<open>getRecommendedMovies(localMovies, favorites, useAPI, limit, watchedMovies,
  allMoviesForLookup, userRatings)\<close>. The function is asynchronous: \<open>Inl\<close> is a rejected
  promise, \<open>Inr\<close> the array it resolves to. The clock (\<open>year\<close>), the extractor's cache
  (\<open>st\<close>) and the catalogue's answer (\<open>apiMovies\<close>) are arguments; \<open>limit\<close> is a count.
  \<open>None\<close> for \<open>favorites\<close> or \<open>watchedMovies\<close> is \<open>null\<close>. The development-mode call of
  \<open>verifyAlgorithmCorrectness\<close> only logs, and its own call of the extractor finds the
  key that this call has just stored.
\<close>

definition getRecommendedMovies ::
  "int \<Rightarrow> extractor_state \<Rightarrow> movie list \<Rightarrow> movie list option \<Rightarrow> bool \<Rightarrow> movie list \<Rightarrow> nat
     \<Rightarrow> watched list option \<Rightarrow> movie list \<Rightarrow> (string \<times> rat) list
     \<Rightarrow> (error + scored list) \<times> extractor_state" where
  "getRecommendedMovies yr st localMovies favorites useAPI apiMovies limit watchedMovies
      allMoviesForLookup userRatings =
     (let favs = orEmpty favorites
      in if favs = [] \<and> orEmpty watchedMovies = []
         then (Inr [], st)
         else
           (case extractUserPreferences st (Some favs) watchedMovies allMoviesForLookup userRatings of
              Inl e \<Rightarrow> (Inl e, st)
            | Inr (r, st') \<Rightarrow>
                (let prefs = heap st' ! r
                 in if genres prefs = [] \<and> directors prefs = [] \<and> actors prefs = []
                    then (Inr [], st')
                    else
                      (let allMovies = candidates localMovies useAPI apiMovies
                       in case favoriteTitles favs of
                            Inl e \<Rightarrow> (Inl e, st')
                          | Inr favTitles \<Rightarrow>
                              (let ws = orEmpty watchedMovies;
                                   ctx = \<lparr>currentYear = yr,
                                          precomputedPrefs = precomputePreferences prefs,
                                          favIdSet = favoriteIds favs,
                                          favTitleSet = favTitles,
                                          wIdSet = watchedIdSet ws,
                                          wTitleSet = watchedTitles ws allMoviesForLookup\<rparr>
                               in (Inr (finish limit (scanBatches ctx limit allMovies [])), st'))))))"

section \<open>The catalogue client\<close>

text \<open>
  A movie as the catalogue sends it, with the fields \<open>convertTMDBToMovieFormat\<close> reads
  (poster and overview apart). A list query has \<open>genre_ids\<close>; a detail query has
  \<open>genres\<close> and \<open>credits\<close>.
\<close>

datatype crew_member = CrewMember (job : "string option") (name : "string option")
  (original_name : "string option")

record tmdb_movie =
  t_id :: int
  t_title :: "string option"
  t_original_title :: "string option"
  t_release_date :: "string option"
  t_genre_ids :: "int list option"
  t_genres :: "(int \<times> string) list option"
  t_vote_average :: "rat option"
  t_popularity :: "rat option"
  t_original_language :: "string option"
  t_director :: "string option"
  t_crew :: "crew_member list option"
  t_credits_crew :: "crew_member list option"
  t_cast :: "string list option"
  t_credits_cast :: "string list option"

definition mapTMDBGenreToLocal :: "int \<Rightarrow> string" where
  "mapTMDBGenreToLocal genreId =
     (case map_of
             [(878, ''Bilim Kurgu''), (35, ''Komedi''), (28, ''Aksiyon/Macera''),
              (16, ''Animasyon''), (80, ''Su'' @ [CHR 0xE7]), (12, ''Aksiyon/Macera''),
              (18, ''Drama''), (9648, ''Gizem''), (99, ''Belgesel''), (27, ''Korku''),
              (53, ''Gizem''), (10749, ''Drama''), (14, ''Bilim Kurgu'')] genreId of
        None \<Rightarrow> ''Bilinmeyen''
      | Some g \<Rightarrow> g)"

definition mapEnglishGenreToTurkish :: "string \<Rightarrow> string" where
  "mapEnglishGenreToTurkish genreName =
     (case map_of
             [(''Science Fiction'', ''Bilim Kurgu''), (''Comedy'', ''Komedi''),
              (''Action'', ''Aksiyon/Macera''), (''Animation'', ''Animasyon''),
              (''Crime'', ''Su'' @ [CHR 0xE7]), (''Adventure'', ''Aksiyon/Macera''),
              (''Drama'', ''Drama''), (''Mystery'', ''Gizem''), (''Documentary'', ''Belgesel''),
              (''Biography'', ''Belgesel''), (''Horror'', ''Korku''), (''Thriller'', ''Gizem''),
              (''Romance'', ''Drama''), (''Fantasy'', ''Bilim Kurgu'')] genreName of
        None \<Rightarrow> genreName
      | Some g \<Rightarrow> g)"

definition getGenreFromTMDBMovie :: "tmdb_movie \<Rightarrow> string" where
  "getGenreFromTMDBMovie tmdbMovie =
     (case t_genres tmdbMovie of
        Some ((i, n) # gs) \<Rightarrow> mapEnglishGenreToTurkish n
      | _ \<Rightarrow>
          (case t_genre_ids tmdbMovie of
             Some (i # is) \<Rightarrow> mapTMDBGenreToLocal i
           | _ \<Rightarrow> ''Bilinmeyen''))"

text \<open>The three job tests of the source amount to the lower-case job being \<open>director\<close>.\<close>

definition getDirectorFromCrew :: "crew_member list option \<Rightarrow> string option" where
  "getDirectorFromCrew crew =
     (case crew of
        None \<Rightarrow> None
      | Some crewArray \<Rightarrow>
          (case List.find (\<lambda>person. case job person of
                                       None \<Rightarrow> False
                                     | Some j \<Rightarrow> j = ''Director'' \<or> j = ''director''
                                                  \<or> (j \<noteq> [] \<and> toLowerCase j = ''director''))
                  crewArray of
             None \<Rightarrow> None
           | Some d \<Rightarrow> if truthyStr (name d) then name d else original_name d))"

text \<open>\<open>a || b\<close> of two optional strings.\<close>

definition orStr :: "string option \<Rightarrow> string option \<Rightarrow> string option" where
  "orStr a b = (if truthyStr a then a else b)"

text \<open>\<open>x.toFixed(1)\<close>: one decimal, a tie rounded away from zero.\<close>

definition toFixed1 :: "rat \<Rightarrow> string" where
  "toFixed1 x =
     (let n = nat \<lfloor>\<bar>x\<bar> * 10 + 1 / 2\<rfloor>
      in (if x < 0 \<and> 0 < n then ''-'' else [])
           @ showNat (n div 10) @ ''.'' @ [digitChar (n mod 10)])"

text \<open>
  \<open>convertTMDBToMovieFormat(tmdbMovie, fullDetails)\<close>. Every caller passes the movie
  alone or the movie twice, so \<open>details\<close> is the movie itself.
\<close>

definition convertTMDBToMovieFormat :: "tmdb_movie \<Rightarrow> movie" where
  "convertTMDBToMovieFormat tmdbMovie =
     Movie
       (Some (StrV (''tmdb_'' @ showInt (t_id tmdbMovie))))
       (Some (IntV (t_id tmdbMovie)))
       (orStr (t_title tmdbMovie) (t_original_title tmdbMovie))
       (case t_release_date tmdbMovie of
          None \<Rightarrow> None
        | Some d \<Rightarrow> if d = [] then None else Some (StrV (takeWhile (\<lambda>c. c \<noteq> CHR ''-'') d)))
       (if truthyStr (t_release_date tmdbMovie) then t_release_date tmdbMovie else None)
       (Some (getGenreFromTMDBMovie tmdbMovie))
       (Some (case t_genre_ids tmdbMovie of
                Some ids \<Rightarrow> ids
              | None \<Rightarrow> (case t_genres tmdbMovie of None \<Rightarrow> [] | Some gs \<Rightarrow> map fst gs)))
       (orStr (orStr (t_director tmdbMovie)
                 (orStr (getDirectorFromCrew (t_crew tmdbMovie))
                    (getDirectorFromCrew (t_credits_crew tmdbMovie))))
          None)
       (Some (take 5 (case t_cast tmdbMovie of
                        Some cs \<Rightarrow> cs
                      | None \<Rightarrow> orEmpty (t_credits_cast tmdbMovie))))
       (Str (case t_vote_average tmdbMovie of
               None \<Rightarrow> ''0.0''
             | Some v \<Rightarrow> if v = 0 then ''0.0'' else toFixed1 v))
       None
       (t_original_language tmdbMovie)
       None"

text \<open>
  The clock of a call: \<open>Date.now()\<close>, the local midnight of today and the current year.
  \<open>dateValue\<close> is the time value of \<open>new Date(s)\<close> for a date \<open>YYYY-MM-DD\<close>, midnight UTC in
  milliseconds; any other string is an invalid date (\<open>None\<close>), which compares false.
\<close>

record clock =
  now :: int
  today :: int
  thisYear :: int

definition daysFromCivil :: "int \<Rightarrow> int \<Rightarrow> int \<Rightarrow> int" where
  "daysFromCivil y m d =
     (let y' = (if m \<le> 2 then y - 1 else y);
          era = y' div 400;
          yoe = y' - era * 400;
          doy = (153 * ((m + 9) mod 12) + 2) div 5 + d - 1;
          doe = yoe * 365 + yoe div 4 - yoe div 100 + doy
      in era * 146097 + doe - 719468)"

definition dateValue :: "string \<Rightarrow> int option" where
  "dateValue s =
     (if length s = 10 \<and> s ! 4 = CHR ''-'' \<and> s ! 7 = CHR ''-''
      then (case (those (map digitOf (take 4 s)), those (map digitOf (take 2 (drop 5 s))),
                  those (map digitOf (drop 8 s))) of
              (Some ys, Some ms, Some ds) \<Rightarrow>
                if 1 \<le> digitsValue ms \<and> digitsValue ms \<le> 12
                   \<and> 1 \<le> digitsValue ds \<and> digitsValue ds \<le> 31
                then Some (86400000 * daysFromCivil (int (digitsValue ys)) (int (digitsValue ms))
                                        (int (digitsValue ds)))
                else None
            | _ \<Rightarrow> None)
      else None)"

definition isMovieReleased :: "clock \<Rightarrow> movie \<Rightarrow> bool" where
  "isMovieReleased clk m =
     (case (if truthyStr (release_date m) then release_date m else None) of
        Some d \<Rightarrow>
          (case dateValue d of
             None \<Rightarrow> False
           | Some releaseDate \<Rightarrow> releaseDate \<le> today clk)
      | None \<Rightarrow>
          if truthyId (year m)
          then (case parseInt (year m) of
                  None \<Rightarrow> True
                | Some releaseYear \<Rightarrow> releaseYear \<le> thisYear clk)
          else True)"

text \<open>\<open>hasIncompatibleGenres\<close>, the genre-pair test of the source. No function calls it.\<close>

definition hasIncompatibleGenres :: "movie \<Rightarrow> int \<Rightarrow> bool" where
  "hasIncompatibleGenres m selectedGenreId =
     (case genre_ids m of
        None \<Rightarrow> False
      | Some genreIds \<Rightarrow>
          if length genreIds \<le> 1 then False
          else if selectedGenreId \<notin> set genreIds then False
          else if selectedGenreId = 16 \<and> list_ex (\<lambda>g. g \<in> set genreIds) [18, 27, 80, 99, 9648]
          then True
          else if selectedGenreId = 27 \<and> list_ex (\<lambda>g. g \<in> set genreIds) [16, 10751, 35, 10402]
          then True
          else if selectedGenreId = 18 \<and> 16 \<in> set genreIds then True
          else if selectedGenreId = 16 \<and> 99 \<in> set genreIds then True
          else if selectedGenreId = 99 \<and> 16 \<in> set genreIds then True
          else False)"

text \<open>The content tests of the result filters.\<close>

definition blockedTitles :: "string list" where
  "blockedTitles = [''nude'', ''succubus'', ''the way to the hearth'']"

definition hasBlockedTitle :: "movie \<Rightarrow> bool" where
  "hasBlockedTitle m =
     list_ex (\<lambda>blocked. includesStr (toLowerCase (case title m of None \<Rightarrow> [] | Some t \<Rightarrow> t))
                          (toLowerCase blocked)) blockedTitles"

definition isTurkishOrSpanish :: "movie \<Rightarrow> bool" where
  "isTurkishOrSpanish m =
     (let originalLanguage = toLowerCase (case original_language m of None \<Rightarrow> [] | Some l \<Rightarrow> l)
      in originalLanguage = ''tr'' \<or> originalLanguage = ''es'')"

definition hasGenreId :: "int \<Rightarrow> movie \<Rightarrow> bool" where
  "hasGenreId g m = (case genre_ids m of None \<Rightarrow> False | Some ids \<Rightarrow> g \<in> set ids)"

text \<open>
  The filter callback of \<open>searchMoviesByDirector\<close> and, word for word, of
  \<open>searchMoviesByActor\<close>: unreleased, blocked title, Turkish or Spanish, Musical (10402).
\<close>

definition personFilter :: "clock \<Rightarrow> movie \<Rightarrow> bool" where
  "personFilter clk m =
     (if \<not> isMovieReleased clk m then False
      else if hasBlockedTitle m then False
      else if isTurkishOrSpanish m then False
      else if hasGenreId 10402 m then False
      else True)"

text \<open>
  The filter callback of \<open>getTopRatedMovies\<close> and of \<open>searchMoviesInTMDB\<close>: the same tests
  and Family (10751).
\<close>

definition listFilter :: "clock \<Rightarrow> movie \<Rightarrow> bool" where
  "listFilter clk m =
     (if \<not> isMovieReleased clk m then False
      else if hasBlockedTitle m then False
      else if isTurkishOrSpanish m then False
      else if hasGenreId 10402 m then False
      else if hasGenreId 10751 m then False
      else True)"

text \<open>The filter callback of \<open>searchMoviesByGenre\<close>.\<close>

definition genreFilter :: "clock \<Rightarrow> int list \<Rightarrow> movie \<Rightarrow> bool" where
  "genreFilter clk genreIdArray m =
     (if orEmpty (genre_ids m) = [] then False
      else if \<not> isMovieReleased clk m then False
      else if hasBlockedTitle m then False
      else if isTurkishOrSpanish m then False
      else if hasGenreId 10402 m then False
      else if 35 \<notin> set genreIdArray \<and> hasGenreId 10751 m then False
      else list_ex (\<lambda>genreId. hasGenreId genreId m) genreIdArray)"

text \<open>
  The outcome of a \<open>fetch\<close> and of reading its body: a network error, a status that is
  not 2xx, a body that is not JSON, or the data. The catalogue is the answers of its
  endpoints to the requests the client makes; the fixed parameters of a request
  (\<open>api_key\<close>, \<open>language\<close>, \<open>vote_count.gte\<close>, \<open>with_original_language\<close>) are not listed.
  \<open>checkRateLimit\<close> only delays a request.
\<close>

datatype 'a response = NetworkError | HttpError nat | MalformedJson | Ok 'a

record discover_params =
  with_genres :: "int option"
  page :: int
  sort_by :: string
  vote_average_gte :: rat
  primary_release_date_gte :: "string option"
  primary_release_date_lte :: "string option"

record credit =
  credit_id :: int
  credit_job :: "string option"
  credit_popularity :: "rat option"

record credits =
  crew :: "credit list option"
  cast_credits :: "credit list option"

record catalogue =
  discoverMovie :: "discover_params \<Rightarrow> tmdb_movie list option response"
  searchMovie :: "string \<Rightarrow> int \<Rightarrow> tmdb_movie list option response"
  searchPerson :: "string \<Rightarrow> int list option response"
  movieCredits :: "int \<Rightarrow> credits response"
  movieDetails :: "int \<Rightarrow> tmdb_movie response"

text \<open>
  The response cache. A key of the source is a string built from the parts a constructor
  holds here, joined by underscores; an entry is the data and the time it was stored.
\<close>

datatype api_key =
    GenreKey "int list" string "int option" "int option" "rat option" int
  | DirectorKey string
  | ActorKey string
  | TopRatedKey string int nat bool
  | SearchKey string int

type_synonym api_cache = "api_key \<rightharpoonup> movie list \<times> int"

definition CACHE_DURATION :: int where
  "CACHE_DURATION = 5 * 60 * 1000"

definition getCached :: "clock \<Rightarrow> api_cache \<Rightarrow> api_key \<Rightarrow> movie list option \<times> api_cache" where
  "getCached clk apiCache key =
     (case apiCache key of
        None \<Rightarrow> (None, apiCache)
      | Some (d, timestamp) \<Rightarrow>
          if now clk - timestamp < CACHE_DURATION then (Some d, apiCache)
          else (None, apiCache(key := None)))"

definition setCache :: "clock \<Rightarrow> api_cache \<Rightarrow> api_key \<Rightarrow> movie list \<Rightarrow> api_cache" where
  "setCache clk apiCache key d = apiCache(key \<mapsto> (d, now clk))"

text \<open>
  The options of \<open>searchMoviesByGenre\<close> (\<open>minYear\<close>, \<open>maxYear\<close>, \<open>minRating\<close>, \<open>page\<close>,
  \<open>limit\<close>, \<open>sortBy\<close>), \<open>page\<close> and \<open>limit\<close> with their defaults filled in.
\<close>

record options =
  opt_minYear :: "int option"
  opt_maxYear :: "int option"
  opt_minRating :: "rat option"
  opt_page :: int
  opt_limit :: nat
  opt_sortBy :: "string option"

definition isDefaultSort :: "string option \<Rightarrow> bool" where
  "isDefaultSort s = (s = None \<or> s = Some ''new_most_rated'')"

definition tmdbSortBy :: "string option \<Rightarrow> string" where
  "tmdbSortBy s =
     (if s = Some ''most_liked'' then ''popularity.desc''
      else if s = Some ''most_rated'' then ''vote_average.desc''
      else ''release_date.desc'')"

text \<open>\<open>sortBy || 'new_rated'\<close>, the sort part of a key.\<close>

definition sortKeyPart :: "string option \<Rightarrow> string" where
  "sortKeyPart s = (case s of None \<Rightarrow> ''new_rated'' | Some t \<Rightarrow> if t = [] then ''new_rated'' else t)"

definition ratOr0 :: "rat option \<Rightarrow> rat" where
  "ratOr0 x = (case x of None \<Rightarrow> 0 | Some r \<Rightarrow> r)"

text \<open>The comparators: \<open>(b.popularity || 0) - (a.popularity || 0)\<close> and the like.\<close>

definition byPopularity :: "tmdb_movie \<Rightarrow> tmdb_movie \<Rightarrow> rat" where
  "byPopularity a b = ratOr0 (t_popularity b) - ratOr0 (t_popularity a)"

definition byVoteAverage :: "tmdb_movie \<Rightarrow> tmdb_movie \<Rightarrow> rat" where
  "byVoteAverage a b = ratOr0 (t_vote_average b) - ratOr0 (t_vote_average a)"

definition byImdb :: "movie \<Rightarrow> movie \<Rightarrow> rat" where
  "byImdb a b = ratOr0 (parseFloat (imdb b)) - ratOr0 (parseFloat (imdb a))"

definition byCreditPopularity :: "credit \<Rightarrow> credit \<Rightarrow> rat" where
  "byCreditPopularity a b = ratOr0 (credit_popularity b) - ratOr0 (credit_popularity a)"

text \<open>The data of a response, or \<open>None\<close> where the source throws (and catches).\<close>

fun okData :: "'a response \<Rightarrow> 'a option" where
  "okData (Ok d) = Some d"
| "okData NetworkError = None"
| "okData (HttpError n) = None"
| "okData MalformedJson = None"

definition discoverParams :: "int option \<Rightarrow> int \<Rightarrow> string option \<Rightarrow> options \<Rightarrow> discover_params" where
  "discoverParams g pg s opts =
     \<lparr>with_genres = g,
      page = pg,
      sort_by = tmdbSortBy s,
      vote_average_gte =
        (if isDefaultSort s then 7
         else (case opt_minRating opts of None \<Rightarrow> 6 | Some r \<Rightarrow> if r = 0 then 6 else r)),
      primary_release_date_gte =
        (case opt_minYear opts of
           None \<Rightarrow> None
         | Some y \<Rightarrow> if y = 0 then None else Some (showInt y @ ''-01-01'')),
      primary_release_date_lte =
        (case opt_maxYear opts of
           None \<Rightarrow> None
         | Some y \<Rightarrow> if y = 0 then None else Some (showInt y @ ''-12-31''))\<rparr>"

text \<open>
  The second request of a merged category: its failure is caught on the spot and leaves
  the first results; its success adds the movies with new ids and sorts.
\<close>

definition mergeSecondGenre ::
  "catalogue \<Rightarrow> discover_params \<Rightarrow> string option \<Rightarrow> int list \<Rightarrow> tmdb_movie list \<Rightarrow> tmdb_movie list" where
  "mergeSecondGenre cat params s genreIds results =
     (case genreIds of
        g1 # g2 # gs \<Rightarrow>
          (case okData (discoverMovie cat (params\<lparr>with_genres := Some g2\<rparr>)) of
             None \<Rightarrow> results
           | Some data2 \<Rightarrow>
               jsSort (if s = Some ''most_liked'' then byPopularity else byVoteAverage)
                 (results @ filter (\<lambda>m. t_id m \<notin> set (map t_id results)) (orEmpty data2)))
      | _ \<Rightarrow> results)"

definition searchMoviesByGenre ::
  "clock \<Rightarrow> catalogue \<Rightarrow> api_cache \<Rightarrow> string \<Rightarrow> options \<Rightarrow> movie list \<times> api_cache" where
  "searchMoviesByGenre clk cat apiCache g opts =
     (case (case GENRE_MAP g of
              None \<Rightarrow> None
            | Some NullEntry \<Rightarrow> None
            | Some (Single n) \<Rightarrow> if n = 0 then None else Some (False, [n])
            | Some (Merged ns) \<Rightarrow> Some (True, ns)) of
        None \<Rightarrow> ([], apiCache)
      | Some (isMergedCategory, genreIdArray) \<Rightarrow>
          (let cacheKey = GenreKey genreIdArray (sortKeyPart (opt_sortBy opts)) (opt_minYear opts)
                            (opt_maxYear opts) (opt_minRating opts) (opt_page opts)
           in case getCached clk apiCache cacheKey of
                (Some cached, apiCache') \<Rightarrow> (cached, apiCache')
              | (None, apiCache') \<Rightarrow>
                  (let params = discoverParams (Some (hd genreIdArray)) (opt_page opts) (opt_sortBy opts) opts
                   in case okData (discoverMovie cat params) of
                        None \<Rightarrow> ([], apiCache')
                      | Some d \<Rightarrow>
                          (let results = (if isMergedCategory
                                          then mergeSecondGenre cat params (opt_sortBy opts) genreIdArray (orEmpty d)
                                          else orEmpty d);
                               fetchLimit = min (if opt_limit opts = 0 then 50 else opt_limit opts)
                                              (length results);
                               basicMovies = map convertTMDBToMovieFormat (take fetchLimit results);
                               filtered = filter (genreFilter clk genreIdArray) basicMovies;
                               validMovies = (if opt_sortBy opts = Some ''most_liked''
                                                 \<or> opt_sortBy opts = Some ''most_rated''
                                                 \<or> isDefaultSort (opt_sortBy opts)
                                              then jsSort byImdb filtered else filtered)
                           in (validMovies, setCache clk apiCache' cacheKey validMovies)))))"

text \<open>
  The details of up to ten credits; a failed detail request is \<open>null\<close> and is dropped.
\<close>

definition moviesWithDetails :: "catalogue \<Rightarrow> credit list \<Rightarrow> movie list" where
  "moviesWithDetails cat cs =
     List.map_filter (\<lambda>c. map_option convertTMDBToMovieFormat (okData (movieDetails cat (credit_id c))))
       (take 10 cs)"

text \<open>The first person the catalogue finds for a name, where there is one.\<close>

definition firstPerson :: "catalogue \<Rightarrow> string \<Rightarrow> int option" where
  "firstPerson cat personName =
     (case okData (searchPerson cat personName) of
        Some (Some (p # ps)) \<Rightarrow> Some p
      | _ \<Rightarrow> None)"

definition searchMoviesByDirector ::
  "clock \<Rightarrow> catalogue \<Rightarrow> api_cache \<Rightarrow> string \<Rightarrow> movie list \<times> api_cache" where
  "searchMoviesByDirector clk cat apiCache directorName =
     (if directorName = [] then ([], apiCache)
      else
        (case getCached clk apiCache (DirectorKey (toLowerCase directorName)) of
           (Some cached, apiCache') \<Rightarrow> (cached, apiCache')
         | (None, apiCache') \<Rightarrow>
             (case firstPerson cat directorName of
                None \<Rightarrow> ([], apiCache')
              | Some person \<Rightarrow>
                  (case okData (movieCredits cat person) of
                     None \<Rightarrow> ([], apiCache')
                   | Some personData \<Rightarrow>
                       (let directorMovies =
                              take 20 (filter (\<lambda>c. credit_job c = Some ''Director'')
                                         (orEmpty (crew personData)));
                            movies = filter (personFilter clk) (moviesWithDetails cat directorMovies)
                        in (movies,
                            setCache clk apiCache' (DirectorKey (toLowerCase directorName)) movies))))))"

definition searchMoviesByActor ::
  "clock \<Rightarrow> catalogue \<Rightarrow> api_cache \<Rightarrow> string \<Rightarrow> movie list \<times> api_cache" where
  "searchMoviesByActor clk cat apiCache actorName =
     (if actorName = [] then ([], apiCache)
      else
        (case getCached clk apiCache (ActorKey (toLowerCase actorName)) of
           (Some cached, apiCache') \<Rightarrow> (cached, apiCache')
         | (None, apiCache') \<Rightarrow>
             (case firstPerson cat actorName of
                None \<Rightarrow> ([], apiCache')
              | Some person \<Rightarrow>
                  (case okData (movieCredits cat person) of
                     None \<Rightarrow> ([], apiCache')
                   | Some personData \<Rightarrow>
                       (let actorMovies =
                              take 20 (jsSort byCreditPopularity (orEmpty (cast_credits personData)));
                            movies = filter (personFilter clk) (moviesWithDetails cat actorMovies)
                        in (movies,
                            setCache clk apiCache' (ActorKey (toLowerCase actorName)) movies))))))"

definition getTopRatedMovies ::
  "clock \<Rightarrow> catalogue \<Rightarrow> api_cache \<Rightarrow> int \<Rightarrow> nat \<Rightarrow> string option \<Rightarrow> movie list \<times> api_cache" where
  "getTopRatedMovies clk cat apiCache pg limit s =
     (let useOldMovies = (isDefaultSort s \<and> 2 < pg);
          cacheKey = TopRatedKey (sortKeyPart s) pg limit useOldMovies
      in case getCached clk apiCache cacheKey of
           (Some cached, apiCache') \<Rightarrow> (cached, apiCache')
         | (None, apiCache') \<Rightarrow>
             (case okData (discoverMovie cat
                       \<lparr>with_genres = None,
                        page = (if useOldMovies then pg - 2 else pg),
                        sort_by = (if useOldMovies then ''vote_average.desc'' else tmdbSortBy s),
                        vote_average_gte = (if isDefaultSort s then 7 else 6),
                        primary_release_date_gte = None,
                        primary_release_date_lte = None\<rparr>) of
                None \<Rightarrow> ([], apiCache')
              | Some d \<Rightarrow>
                  (let results = orEmpty d;
                       basicMovies = map convertTMDBToMovieFormat (take (min limit (length results)) results);
                       filtered = filter (listFilter clk) basicMovies;
                       movies = (if s = Some ''most_liked'' \<or> s = Some ''most_rated''
                                    \<or> isDefaultSort s
                                 then jsSort byImdb filtered else filtered)
                   in (movies, setCache clk apiCache' cacheKey movies))))"

definition searchMoviesInTMDB ::
  "clock \<Rightarrow> catalogue \<Rightarrow> api_cache \<Rightarrow> string \<Rightarrow> int \<Rightarrow> nat \<Rightarrow> movie list \<times> api_cache" where
  "searchMoviesInTMDB clk cat apiCache query pg limit =
     (if trim query = [] then ([], apiCache)
      else
        (case getCached clk apiCache (SearchKey (toLowerCase query) pg) of
           (Some cached, apiCache') \<Rightarrow> (take limit cached, apiCache')
         | (None, apiCache') \<Rightarrow>
             (case okData (searchMovie cat (trim query) pg) of
                None \<Rightarrow> ([], apiCache')
              | Some d \<Rightarrow>
                  (let movies = take limit
                                  (filter (listFilter clk)
                                     (map convertTMDBToMovieFormat (take (limit * 2) (orEmpty d))))
                   in (movies, setCache clk apiCache' (SearchKey (toLowerCase query) pg) movies)))))"

section \<open>Properties and inputs used in the theorems\<close>

text \<open>
  \<open>ranksBefore a b\<close>: \<open>a\<close> may stand before \<open>b\<close> in a list ranked by score descending,
  equal scores by rating descending.
\<close>

definition ranksBefore :: "scored \<Rightarrow> scored \<Rightarrow> bool" where
  "ranksBefore a b =
     (recommendationScore b < recommendationScore a
      \<or> (recommendationScore a = recommendationScore b
          \<and> recommendationRating b \<le> recommendationRating a))"

text \<open>The entries of a list with a given director, and with a given cast member.\<close>

definition byDirector :: "string \<Rightarrow> scored list \<Rightarrow> scored list" where
  "byDirector d xs = filter (\<lambda>r. director (movieOf r) = Some d) xs"

definition withActor :: "string \<Rightarrow> scored list \<Rightarrow> scored list" where
  "withActor a xs = filter (\<lambda>r. a \<in> set (orEmpty (cast (movieOf r)))) xs"

text \<open>An extractor state is well formed when every cached reference points into the heap.\<close>

definition wellFormed :: "extractor_state \<Rightarrow> bool" where
  "wellFormed st = (\<forall>k r. preferencesCache st k = Some r \<longrightarrow> r < length (heap st))"

text \<open>The scored movies a scan can see: those already held, and the candidates' own.\<close>

definition scannedFrom :: "scan_context \<Rightarrow> movie list \<Rightarrow> scored list \<Rightarrow> scored set" where
  "scannedFrom ctx ms acc = set acc \<union> {s. \<exists>m\<in>set ms. scoreMovie ctx m = Some s}"

text \<open>
  A candidate matches a favourite by its id, by the id of its local record, or by its
  lower-case trimmed title. It matches a watched entry when the entry's id string is the
  candidate's id string, its catalogue id string, its id without the \<open>tmdb_\<close> prefix or
  the id string of its local record, or when the candidate's title is the title of the
  watched object or of the movie the entry resolves to in the lookup list.
\<close>

definition matchesFavorite :: "movie \<Rightarrow> movie \<Rightarrow> bool" where
  "matchesFavorite m fav =
     (mid m = mid fav
      \<or> (case localData m of None \<Rightarrow> False | Some l \<Rightarrow> mid l = mid fav)
      \<or> (case title fav of None \<Rightarrow> False | Some t \<Rightarrow> movieTitle m = trim (toLowerCase t)))"

definition matchesWatched :: "movie list \<Rightarrow> movie \<Rightarrow> watched \<Rightarrow> bool" where
  "matchesWatched allMoviesForLookup m w =
     (watchedIdString w = movieId m \<or> watchedIdString w = movieTmdbId m
      \<or> watchedIdString w = numericId m
      \<or> (case localData m of None \<Rightarrow> False | Some l \<Rightarrow> watchedIdString w = String (mid l))
      \<or> watchedObjectTitle w = Some (movieTitle m)
      \<or> watchedLookupTitle allMoviesForLookup w = Some (movieTitle m))"

text \<open>The profile and the movies of the scoring tests in the repository.\<close>

definition mockPreferences :: preferences where
  "mockPreferences =
     \<lparr>genres = [''drama''], directors = [''christopher nolan''], actors = [''leonardo dicaprio''],
      minRating = 15 / 2, userAvgRating = Some 8,
      genreFrequency = [(''Drama'', 3)], directorFrequency = [(''Christopher Nolan'', 2)],
      actorFrequency = [(''Leonardo DiCaprio'', 1)]\<rparr>"

definition noMatchMovie :: movie where
  "noMatchMovie =
     Movie None None (Some ''Test Movie'') None None (Some ''Comedy'') None (Some ''Unknown'')
       (Some []) (Str ''7.0'') None None None"

definition threeMatchMovie :: movie where
  "threeMatchMovie =
     Movie None None (Some ''Test Movie'') (Some (IntV 2020)) None (Some ''Drama'') None
       (Some ''Christopher Nolan'') (Some [''Leonardo DiCaprio'']) (Str ''8.5'') None None None"

text \<open>An empty extractor state, and the movies of the assembler's tests.\<close>

definition st0 :: extractor_state where
  "st0 = \<lparr>heap = [], preferencesCache = Map.empty\<rparr>"

definition favoriteDrama :: movie where
  "favoriteDrama =
     Movie (Some (IntV 1)) None (Some ''Movie 1'') None None (Some ''Drama'') None
       (Some ''Director A'') None (Str ''8.5'') None None None"

definition sameDirector :: "int \<Rightarrow> movie" where
  "sameDirector i =
     Movie (Some (IntV i)) None (Some (''Movie '' @ showInt i)) None None (Some ''Drama'') None
       (Some ''Director A'') (Some []) (Str ''8.0'') None None None"

definition otherMovie :: "int \<Rightarrow> string \<Rightarrow> string \<Rightarrow> movie" where
  "otherMovie i g r =
     Movie (Some (IntV i)) None (Some (''Movie '' @ showInt i)) None None (Some g) None
       (Some ''Director A'') (Some []) (Str r) None None None"

definition favoriteMovie :: movie where
  "favoriteMovie =
     Movie (Some (IntV 1)) None (Some ''Favorite Movie'') None None (Some ''Drama'') None None None
       (Str ''8.5'') None None None"

definition watchedMovie :: movie where
  "watchedMovie =
     Movie (Some (IntV 2)) None (Some ''Watched Movie'') None None (Some ''Drama'') None None None
       (Str ''8.0'') None None None"

definition recommendedMovie :: movie where
  "recommendedMovie =
     Movie (Some (IntV 3)) None (Some ''Recommended Movie'') None None (Some ''Drama'') None None None
       (Str ''8.0'') None None None"

text \<open>A favourite stored under the catalogue's number, and the catalogue's movie of that number.\<close>

definition favorite550 :: movie where
  "favorite550 =
     Movie (Some (IntV 550)) None (Some ''Fight Club'') None None (Some ''Drama'') None None None
       (Str ''8.8'') None None None"

definition catalogue550 :: movie where
  "catalogue550 =
     Movie (Some (StrV ''tmdb_550'')) (Some (IntV 550)) (Some ''Fight Club (1999)'')
       (Some (StrV ''1999'')) (Some ''1999-10-15'') (Some ''Drama'') (Some [18]) None (Some [])
       (Str ''8.4'') None (Some ''en'') None"

definition untitledFavorite :: movie where
  "untitledFavorite =
     Movie (Some (IntV 1)) None None None None (Some ''Drama'') None None None
       (Str ''8.5'') None None None"

text \<open>
  The rating floor in the words of the specification: the mean of the explicit ratings
  when there is one, and otherwise the mean of the movies' own ratings in which a
  favourite's rating weighs one and a half times a watched movie's.
\<close>

definition claimedBaseline :: "movie list \<Rightarrow> movie list \<Rightarrow> (string \<times> rat) list \<Rightarrow> rat" where
  "claimedBaseline favorites watchedData userRatings =
     (let vs = userRatingValues userRatings;
          fs = imdbRatings favorites;
          ws = imdbRatings watchedData
      in if vs \<noteq> [] then sum_list vs / of_nat (length vs)
         else (3 / 2 * sum_list fs + sum_list ws) / (3 / 2 * of_nat (length fs) + of_nat (length ws)))"

definition claimedMinRating :: "movie list \<Rightarrow> movie list \<Rightarrow> (string \<times> rat) list \<Rightarrow> rat" where
  "claimedMinRating favorites watchedData userRatings =
     max (15 / 2) (claimedBaseline favorites watchedData userRatings - 1 / 2)"

definition ratedMovie :: "int \<Rightarrow> string \<Rightarrow> movie" where
  "ratedMovie i r =
     Movie (Some (IntV i)) None (Some (''Movie '' @ showInt i)) None None None None None None
       (Str r) None None None"

text \<open>The profile a call of the extractor returns, read through its reference.\<close>

definition profileOf :: "error + nat \<times> extractor_state \<Rightarrow> preferences option" where
  "profileOf x = (case x of Inl e \<Rightarrow> None | Inr (r, st) \<Rightarrow> Some (heap st ! r))"

text \<open>
  The extractor's state after one call with the favourite of the assembler's tests, and
  after one call with no movie at all.
\<close>

definition dramaProfileState :: extractor_state where
  "dramaProfileState =
     \<lparr>heap = [buildPreferences [favoriteDrama] [] []],
      preferencesCache = [makeCacheKey [favoriteDrama] [] [] \<mapsto> 0]\<rparr>"

definition emptyProfileState :: extractor_state where
  "emptyProfileState = \<lparr>heap = [emptyPreferences], preferencesCache = Map.empty\<rparr>"



text \<open>
  A clock (noon of 2 November 2026, the day's midnight taken as midnight UTC) and a small
  catalogue: two comedies in its lists, an animated documentary, and a person who
  directed a Family film and acted in a film without genres.
\<close>

definition clk0 :: clock where
  "clk0 = \<lparr>now = 1793620800000, today = 1793577600000, thisYear = 2026\<rparr>"

definition listMovie :: "int \<Rightarrow> string \<Rightarrow> int list \<Rightarrow> rat \<Rightarrow> tmdb_movie" where
  "listMovie i t gs v =
     \<lparr>t_id = i, t_title = Some t, t_original_title = None, t_release_date = Some ''2020-01-01'',
      t_genre_ids = Some gs, t_genres = None, t_vote_average = Some v, t_popularity = None,
      t_original_language = Some ''en'', t_director = None, t_crew = None, t_credits_crew = None,
      t_cast = None, t_credits_cast = None\<rparr>"

definition detailMovie :: "int \<Rightarrow> string \<Rightarrow> (int \<times> string) list \<Rightarrow> tmdb_movie" where
  "detailMovie i t gs =
     \<lparr>t_id = i, t_title = Some t, t_original_title = None, t_release_date = Some ''2019-06-01'',
      t_genre_ids = None, t_genres = Some gs, t_vote_average = Some (36 / 5), t_popularity = None,
      t_original_language = Some ''en'', t_director = None, t_crew = None,
      t_credits_crew = Some [CrewMember (Some ''Director'') (Some ''Pat Doe'') None],
      t_cast = None, t_credits_cast = Some [''Pat Doe'']\<rparr>"

definition familyFilm :: tmdb_movie where
  "familyFilm = detailMovie 10 ''Family Film'' [(10751, ''Family''), (35, ''Comedy'')]"

definition untaggedFilm :: tmdb_movie where
  "untaggedFilm = detailMovie 11 ''Untagged Film'' []"

definition drawnFacts :: tmdb_movie where
  "drawnFacts = listMovie 3 ''Drawn Facts'' [16, 99] 8"

definition cat0 :: catalogue where
  "cat0 =
     \<lparr>discoverMovie =
        (\<lambda>p. if with_genres p = Some 35
              then Ok (Some [listMovie 1 ''Comedy One'' [35] 8, listMovie 2 ''Comedy Two'' [35] (15 / 2)])
              else if with_genres p = Some 16
              then Ok (Some [drawnFacts])
              else HttpError 500),
      searchMovie =
        (\<lambda>q pg. Ok (Some [listMovie 1 ''Comedy One'' [35] 8, listMovie 2 ''Comedy Two'' [35] (15 / 2)])),
      searchPerson = (\<lambda>n. Ok (Some [7])),
      movieCredits =
        (\<lambda>p. Ok \<lparr>crew = Some [\<lparr>credit_id = 10, credit_job = Some ''Director'', credit_popularity = None\<rparr>],
                  cast_credits = Some [\<lparr>credit_id = 11, credit_job = None, credit_popularity = Some 3\<rparr>]\<rparr>),
      movieDetails =
        (\<lambda>i. if i = 10 then Ok familyFilm
              else if i = 11 then Ok untaggedFilm
              else HttpError 404)\<rparr>"

definition genreOptions :: "nat \<Rightarrow> options" where
  "genreOptions n =
     \<lparr>opt_minYear = None, opt_maxYear = None, opt_minRating = None, opt_page = 1, opt_limit = n,
      opt_sortBy = None\<rparr>"






section \<open>Theorems: the scoring engine\<close>

text \<open>
  C1. The claim: a candidate with no genre, director or actor overlap with the profile
  scores exactly 0, whatever its release year and the profile's \<open>userAvgRating\<close>. The
  repository's own test of it ("should return zero score for no matches") uses the movie
  and the profile below and expects 0. The code adds the rating-proximity bonus outside
  the match branches: the movie's rating 7.0 is within 1.0 of the profile's 8.0, and the
  score is 10, in every year.
\<close>

theorem C1_no_match_scores_ten:
  "\<not> genresMatch (genre noMatchMovie) (genres mockPreferences)
   \<and> \<not> directorMatches (director noMatchMovie) (directors mockPreferences)
   \<and> \<not> actorMatches (cast noMatchMovie) (actors mockPreferences)
   \<and> score (calculateRecommendationScore yr noMatchMovie mockPreferences) = 10"
  by (simp add: js_simps mockPreferences_def noMatchMovie_def)

text \<open>
  C5, as the code has it. The score is a function of the candidate, the profile and the
  calendar year of the call. The year enters through the recency bonus alone: rating,
  match count and breakdown do not depend on it, the score without the recency bonus
  does not depend on it, and for a candidate whose year does not parse the whole result
  does not depend on it.
\<close>

theorem C5_clock_only_through_recency:
  "rating (calculateRecommendationScore y1 m p) = rating (calculateRecommendationScore y2 m p)
   \<and> matchCount (calculateRecommendationScore y1 m p) = matchCount (calculateRecommendationScore y2 m p)
   \<and> breakdown (calculateRecommendationScore y1 m p) = breakdown (calculateRecommendationScore y2 m p)
   \<and> score (calculateRecommendationScore y1 m p) - recencyBonus y1 m
       = score (calculateRecommendationScore y2 m p) - recencyBonus y2 m
   \<and> (parseInt (year m) = None
        \<longrightarrow> calculateRecommendationScore y1 m p = calculateRecommendationScore y2 m p)"
  by (simp add: calculateRecommendationScore_def Let_def recencyBonus_def)

theorem C5_clock_only_through_recency_witness:
  "parseInt (year noMatchMovie) = None
   \<and> calculateRecommendationScore 2024 noMatchMovie mockPreferences
       = calculateRecommendationScore 2031 noMatchMovie mockPreferences
   \<and> score (calculateRecommendationScore 2024 threeMatchMovie mockPreferences)
         - recencyBonus 2024 threeMatchMovie
       = score (calculateRecommendationScore 2031 threeMatchMovie mockPreferences)
         - recencyBonus 2031 threeMatchMovie"
proof -
  have h: "parseInt (year noMatchMovie) = None"
    by (simp add: noMatchMovie_def)
  from C5_clock_only_through_recency [of 2024 noMatchMovie mockPreferences 2031] h
  have "calculateRecommendationScore 2024 noMatchMovie mockPreferences
       = calculateRecommendationScore 2031 noMatchMovie mockPreferences"
    by blast
  with h C5_clock_only_through_recency [of 2024 threeMatchMovie mockPreferences 2031]
  show ?thesis by blast
qed

text \<open>
  C5 as stated fails: the same candidate and the same profile score 360 in a call made in
  2024 and 355 in a call made in 2031, because the movie of 2020 is then more than ten
  years old.
\<close>

theorem C5_same_arguments_two_years:
  "score (calculateRecommendationScore 2024 threeMatchMovie mockPreferences) = 360
   \<and> score (calculateRecommendationScore 2031 threeMatchMovie mockPreferences) = 355"
  by code_simp

section \<open>Theorems: the recommendation assembler\<close>

subsection \<open>The sort\<close>

lemma compareScored_le: "compareScored a b \<le> 0 \<longleftrightarrow> ranksBefore a b"
  by (auto simp: compareScored_def ranksBefore_def)

lemma ranksBefore_total: "\<not> ranksBefore a b \<Longrightarrow> ranksBefore b a"
  by (auto simp: ranksBefore_def)

lemma ranksBefore_trans: "ranksBefore a b \<Longrightarrow> ranksBefore b c \<Longrightarrow> ranksBefore a c"
  by (auto simp: ranksBefore_def)

lemma set_insertBy: "set (insertBy cmp x ys) = insert x (set ys)"
  by (induction ys) auto

lemma set_jsSort: "set (jsSort cmp xs) = set xs"
  by (induction xs) (simp_all add: jsSort_def set_insertBy)

lemma length_insertBy: "length (insertBy cmp x ys) = Suc (length ys)"
  by (induction ys) auto

lemma length_jsSort: "length (jsSort cmp xs) = length xs"
  by (induction xs) (simp_all add: jsSort_def length_insertBy)

lemma sorted_insertBy:
  "sorted_wrt ranksBefore ys \<Longrightarrow> sorted_wrt ranksBefore (insertBy compareScored x ys)"
proof (induction ys)
  case Nil
  then show ?case by simp
next
  case (Cons y ys)
  show ?case
  proof (cases "compareScored x y \<le> 0")
    case True
    then have xy: "ranksBefore x y" by (simp add: compareScored_le)
    have "\<forall>z\<in>set ys. ranksBefore x z"
      using Cons.prems xy ranksBefore_trans by auto
    with True xy Cons.prems show ?thesis by simp
  next
    case False
    then have yx: "ranksBefore y x"
      using ranksBefore_total by (simp add: compareScored_le)
    with False Cons show ?thesis by (auto simp: set_insertBy)
  qed
qed

lemma sorted_jsSort: "sorted_wrt ranksBefore (jsSort compareScored xs)"
proof (induction xs)
  case Nil
  then show ?case by (simp add: jsSort_def)
next
  case (Cons x xs)
  then show ?case using sorted_insertBy [of "jsSort compareScored xs" x] by (simp add: jsSort_def)
qed

lemma sorted_wrt_take: "sorted_wrt P xs \<Longrightarrow> sorted_wrt P (take n xs)"
proof -
  assume "sorted_wrt P xs"
  then have "sorted_wrt P (take n xs @ drop n xs)" by simp
  then show ?thesis unfolding sorted_wrt_append by blast
qed

subsection \<open>The diversity filter\<close>

lemma set_diverseMovies: "set (diverseMovies dc ac xs) \<subseteq> set xs"
  by (induction xs arbitrary: dc ac) (auto split: option.splits if_splits)

lemma sorted_diverseMovies:
  "sorted_wrt P xs \<Longrightarrow> sorted_wrt P (diverseMovies dc ac xs)"
proof (induction xs arbitrary: dc ac)
  case Nil
  then show ?case by simp
next
  case (Cons x xs)
  have sub: "\<And>dc ac. \<forall>y\<in>set (diverseMovies dc ac xs). P x y"
    using Cons.prems set_diverseMovies by fastforce
  have ih: "\<And>dc ac. sorted_wrt P (diverseMovies dc ac xs)"
    using Cons by simp
  show ?case
    by (simp add: sub ih split: option.splits)
qed

text \<open>
  The filter keeps at most three movies of a director and at most two with a cast member,
  counted from the counters it starts with.
\<close>

lemma raised_count:
  "foldl (\<lambda>ac actor. ac(actor := ac actor + 1)) ac cs a = ac a + count_list cs a"
  by (induction cs arbitrary: ac) auto

lemma count_list_member: "a \<in> set cs \<Longrightarrow> 1 \<le> count_list cs a"
  by (induction cs) auto

lemma diverse_director:
  "d \<noteq> [] \<Longrightarrow> dc d + length (byDirector d (diverseMovies dc ac xs)) \<le> max 3 (dc d)"
proof (induction xs arbitrary: dc ac)
  case Nil
  then show ?case by (simp add: byDirector_def)
next
  case (Cons m ms)
  show ?case
  proof (cases "truthyStr (director (movieOf m))")
    case False
    then have nd: "director (movieOf m) \<noteq> Some d"
      using Cons.prems by auto
    have "\<And>ac'. dc d + length (byDirector d (diverseMovies dc ac' ms)) \<le> max 3 (dc d)"
      using Cons.IH [OF Cons.prems] .
    with False nd show ?thesis
      by (auto simp: byDirector_def split: option.splits)
  next
    case True
    then obtain d' where d': "director (movieOf m) = Some d'" "d' \<noteq> []"
      by (cases "director (movieOf m)") auto
    show ?thesis
    proof (cases "3 \<le> dc d'")
      case full: True
      have "dc d + length (byDirector d (diverseMovies dc ac ms)) \<le> max 3 (dc d)"
        using Cons.IH [OF Cons.prems] .
      with d' full show ?thesis by simp
    next
      case room: False
      let ?dc = "dc(d' := dc d' + 1)"
      have ih: "?dc d + length (byDirector d (diverseMovies ?dc ac' ms)) \<le> max 3 (?dc d)" for ac'
        using Cons.IH [OF Cons.prems] .
      show ?thesis
      proof (cases "d = d'")
        case True
        have le3: "dc d + 1 + length (byDirector d (diverseMovies ?dc ac' ms)) \<le> 3" for ac'
          using ih [of ac'] room True by (simp add: max_def split: if_splits)
        have kept: "dc d + length (byDirector d (m # diverseMovies ?dc ac' ms)) \<le> max 3 (dc d)" for ac'
          using le3 [of ac'] d' True by (simp add: byDirector_def)
        have dropped: "dc d + length (byDirector d (diverseMovies ?dc ac' ms)) \<le> max 3 (dc d)" for ac'
          using le3 [of ac'] by simp
        from d' room kept dropped show ?thesis
          by (simp split: option.splits)
      next
        case False
        have "dc d + length (byDirector d (diverseMovies ?dc ac' ms)) \<le> max 3 (dc d)" for ac'
          using ih [of ac'] False by simp
        with d' room False show ?thesis
          by (simp add: byDirector_def split: option.splits)
      qed
    qed
  qed
qed

lemma diverse_actor_step:
  assumes ih: "\<And>dc' ac'. ac' a + length (withActor a (diverseMovies dc' ac' ms)) \<le> max 2 (ac' a)"
  shows "ac a + length (withActor a
           (case cast (movieOf m) of
              None \<Rightarrow> m # diverseMovies dc' ac ms
            | Some cs \<Rightarrow>
                if cs = [] then m # diverseMovies dc' ac ms
                else if list_ex (\<lambda>actor. 2 \<le> ac actor) cs then diverseMovies dc' ac ms
                else m # diverseMovies dc'
                           (foldl (\<lambda>ac actor. ac(actor := ac actor + 1)) ac cs) ms))
         \<le> max 2 (ac a)"
proof (cases "cast (movieOf m)")
  case None
  then show ?thesis using ih [of ac dc'] by (simp add: withActor_def)
next
  case (Some cs)
  show ?thesis
  proof (cases "cs = []")
    case True
    with Some show ?thesis using ih [of ac dc'] by (simp add: withActor_def)
  next
    case ne: False
    show ?thesis
    proof (cases "list_ex (\<lambda>actor. 2 \<le> ac actor) cs")
      case True
      with Some ne show ?thesis using ih [of ac dc'] by simp
    next
      case False
      let ?ac = "foldl (\<lambda>ac actor. ac(actor := ac actor + 1)) ac cs"
      have step: "?ac a + length (withActor a (diverseMovies dc' ?ac ms)) \<le> max 2 (?ac a)"
        using ih [of ?ac dc'] .
      show ?thesis
      proof (cases "a \<in> set cs")
        case True
        then have low: "ac a < 2"
          using False by (auto simp: list_ex_iff)
        have "1 \<le> count_list cs a"
          using True by (rule count_list_member)
        moreover have "?ac a = ac a + count_list cs a"
          by (rule raised_count)
        ultimately have "ac a + 1 \<le> ?ac a"
          by linarith
        with step low have "ac a + 1 + length (withActor a (diverseMovies dc' ?ac ms)) \<le> 2"
          by (simp add: max_def split: if_splits)
        with Some ne False True show ?thesis
          by (simp add: withActor_def)
      next
        case notin: False
        then have "count_list cs a = 0"
          by (simp add: count_list_0_iff)
        moreover have "?ac a = ac a + count_list cs a"
          by (rule raised_count)
        ultimately have "?ac a = ac a"
          by linarith
        with step Some ne False notin show ?thesis
          by (simp add: withActor_def)
      qed
    qed
  qed
qed

lemma diverse_actor:
  "ac a + length (withActor a (diverseMovies dc ac xs)) \<le> max 2 (ac a)"
proof (induction xs arbitrary: dc ac)
  case Nil
  then show ?case by (simp add: withActor_def)
next
  case (Cons m ms)
  show ?case
  proof (cases "truthyStr (director (movieOf m))")
    case False
    then show ?thesis
      using diverse_actor_step [of a ms ac m dc, OF Cons.IH] by simp
  next
    case True
    then obtain d where d: "director (movieOf m) = Some d" "d \<noteq> []"
      by (cases "director (movieOf m)") auto
    show ?thesis
    proof (cases "3 \<le> dc d")
      case True
      with d show ?thesis using Cons.IH [of ac dc] by simp
    next
      case False
      with d show ?thesis
        using diverse_actor_step [of a ms ac m "dc(d := dc d + 1)", OF Cons.IH] by simp
    qed
  qed
qed

lemma length_filter_take: "length (filter P (take n xs)) \<le> length (filter P xs)"
proof -
  have "length (filter P xs) = length (filter P (take n xs)) + length (filter P (drop n xs))"
    by (metis append_take_drop_id filter_append length_append)
  then show ?thesis by simp
qed

text \<open>The list of a full scan has no director in more than 3 entries and no actor in more than 2.\<close>

lemma full_scan_is_diverse:
  "(d \<noteq> [] \<longrightarrow> length (byDirector d (finish limit (Complete scoredMovies))) \<le> 3)
   \<and> length (withActor a (finish limit (Complete scoredMovies))) \<le> 2"
proof -
  let ?xs = "diverseMovies (\<lambda>d. 0) (\<lambda>a. 0) (jsSort compareScored scoredMovies)"
  have "d \<noteq> [] \<Longrightarrow> length (byDirector d ?xs) \<le> 3"
    using diverse_director [of d "\<lambda>d. 0" "\<lambda>a. 0" "jsSort compareScored scoredMovies"] by simp
  moreover have "length (withActor a ?xs) \<le> 2"
    using diverse_actor [of "\<lambda>a. 0" a "\<lambda>d. 0" "jsSort compareScored scoredMovies"] by simp
  moreover have "length (byDirector d (take limit ?xs)) \<le> length (byDirector d ?xs)"
    and "length (withActor a (take limit ?xs)) \<le> length (withActor a ?xs)"
    by (simp_all add: byDirector_def withActor_def length_filter_take)
  ultimately show ?thesis
    by (auto simp: finish_def)
qed

subsection \<open>The scan\<close>

lemma set_map_filter_Some:
  "set (List.map_filter f xs) = {y. \<exists>x\<in>set xs. f x = Some y}"
  by (induction xs) (auto split: option.splits)

lemma scannedFrom_step:
  "scannedFrom ctx (drop n ms) (acc @ List.map_filter (scoreMovie ctx) (take n ms)) \<subseteq> scannedFrom ctx ms acc"
  by (auto simp: scannedFrom_def set_map_filter_Some dest: in_set_takeD in_set_dropD)

lemma scanBatches_from:
  "(scanBatches ctx limit ms acc = Early res \<longrightarrow> set res \<subseteq> scannedFrom ctx ms acc)
   \<and> (scanBatches ctx limit ms acc = Complete res \<longrightarrow> set res \<subseteq> scannedFrom ctx ms acc)"
proof (induction ctx limit ms acc rule: scanBatches.induct)
  case (1 ctx limit allMovies scoredMovies)
  let ?acc = "scoredMovies @ List.map_filter (scoreMovie ctx) (take 50 allMovies)"
  show ?case
  proof (cases "allMovies = []")
    case True
    then show ?thesis by (simp add: scanBatches.simps scannedFrom_def)
  next
    case ne: False
    show ?thesis
    proof (cases "limit * 2 \<le> length ?acc")
      case True
      have "set (take limit (jsSort compareScored ?acc)) \<subseteq> set ?acc"
        using set_take_subset set_jsSort by fastforce
      also have "\<dots> \<subseteq> scannedFrom ctx allMovies scoredMovies"
        by (auto simp: scannedFrom_def set_map_filter_Some dest: in_set_takeD)
      finally show ?thesis using ne True
        by (auto simp: scanBatches.simps [of ctx limit allMovies] Let_def)
    next
      case False
      have eq: "scanBatches ctx limit allMovies scoredMovies = scanBatches ctx limit (drop 50 allMovies) ?acc"
        using ne False by (simp add: scanBatches.simps [of ctx limit allMovies] Let_def)
      have ih: "(scanBatches ctx limit (drop 50 allMovies) ?acc = Early res \<longrightarrow>
                   set res \<subseteq> scannedFrom ctx (drop 50 allMovies) ?acc)
              \<and> (scanBatches ctx limit (drop 50 allMovies) ?acc = Complete res \<longrightarrow>
                   set res \<subseteq> scannedFrom ctx (drop 50 allMovies) ?acc)"
        using "1.IH" [OF ne refl False] .
      show ?thesis
        unfolding eq using ih scannedFrom_step [of ctx 50 allMovies scoredMovies] by blast
    qed
  qed
qed

lemma scanBatches_Early:
  "scanBatches ctx limit ms acc = Early res \<Longrightarrow> sorted_wrt ranksBefore res \<and> length res \<le> limit"
proof (induction ctx limit ms acc rule: scanBatches.induct)
  case (1 ctx limit allMovies scoredMovies)
  let ?acc = "scoredMovies @ List.map_filter (scoreMovie ctx) (take 50 allMovies)"
  show ?case
  proof (cases "allMovies = []")
    case True
    with "1.prems" show ?thesis by (simp add: scanBatches.simps)
  next
    case ne: False
    show ?thesis
    proof (cases "limit * 2 \<le> length ?acc")
      case True
      with ne "1.prems" have "res = take limit (jsSort compareScored ?acc)"
        by (simp add: scanBatches.simps [of ctx limit allMovies] Let_def)
      then show ?thesis by (simp add: sorted_wrt_take sorted_jsSort)
    next
      case False
      with ne "1.prems" have "scanBatches ctx limit (drop 50 allMovies) ?acc = Early res"
        by (simp add: scanBatches.simps [of ctx limit allMovies] Let_def)
      then show ?thesis using "1.IH" [OF ne refl False] by simp
    qed
  qed
qed

lemma finish_sorted: "sorted_wrt ranksBefore (finish limit (scanBatches ctx limit ms acc))"
proof (cases "scanBatches ctx limit ms acc")
  case (Early res)
  then show ?thesis using scanBatches_Early [OF Early] by (simp add: finish_def)
next
  case (Complete sm)
  then show ?thesis
    by (simp add: finish_def sorted_wrt_take sorted_diverseMovies sorted_jsSort)
qed

lemma finish_length: "length (finish limit (scanBatches ctx limit ms acc)) \<le> limit"
proof (cases "scanBatches ctx limit ms acc")
  case (Early res)
  then show ?thesis using scanBatches_Early [OF Early] by (simp add: finish_def)
next
  case (Complete sm)
  then show ?thesis by (simp add: finish_def)
qed

lemma finish_from: "set (finish limit (scanBatches ctx limit ms acc)) \<subseteq> scannedFrom ctx ms acc"
proof (cases "scanBatches ctx limit ms acc")
  case (Early res)
  then show ?thesis using scanBatches_from [of ctx limit ms acc res] by (simp add: finish_def)
next
  case (Complete sm)
  have "set (take limit (diverseMovies (\<lambda>d. 0) (\<lambda>a. 0) (jsSort compareScored sm))) \<subseteq> set sm"
    using set_take_subset set_diverseMovies set_jsSort by fast
  then show ?thesis using Complete scanBatches_from [of ctx limit ms acc sm] by (simp add: finish_def)
qed

subsection \<open>The assembler\<close>

text \<open>What the assembler returns, when it returns a non-empty list.\<close>

lemma getRecommendedMovies_cases:
  assumes "getRecommendedMovies yr st localMovies favorites useAPI apiMovies limit watchedMovies
             allMoviesForLookup userRatings = (Inr result, st')"
  shows "result = []
         \<or> (\<exists>prefs favTitles ws.
               watchedMovies = Some ws
             \<and> favoriteTitles (orEmpty favorites) = Inr favTitles
             \<and> result = finish limit
                 (scanBatches
                    \<lparr>currentYear = yr, precomputedPrefs = prefs,
                     favIdSet = favoriteIds (orEmpty favorites), favTitleSet = favTitles,
                     wIdSet = watchedIdSet ws, wTitleSet = watchedTitles ws allMoviesForLookup\<rparr>
                    limit (candidates localMovies useAPI apiMovies) []))"
proof (cases watchedMovies)
  case None
  with assms show ?thesis
    by (auto simp: getRecommendedMovies_def extractUserPreferences_def Let_def split: if_splits)
next
  case (Some ws)
  with assms show ?thesis
    by (auto simp: getRecommendedMovies_def Let_def split: if_splits sum.splits prod.splits)
qed

lemma set_newSet_aux: "set (foldl setAdd acc xs) = set acc \<union> set xs"
  by (induction xs arbitrary: acc) (auto simp: setAdd_def)

lemma set_newSet: "set (newSet xs) = set xs"
  by (simp add: newSet_def set_newSet_aux)

lemma lowerTitles_set:
  "lowerTitles favs = Inr ts \<Longrightarrow> fav \<in> set favs \<Longrightarrow>
     \<exists>t. title fav = Some t \<and> trim (toLowerCase t) \<in> set ts"
  by (induction favs arbitrary: ts) (auto split: option.splits sum.splits)

lemma not_isFavorite:
  assumes "favoriteTitles favs = Inr favTitles"
      and "\<not> isFavorite (favoriteIds favs) favTitles m"
      and "fav \<in> set favs"
  shows "\<not> matchesFavorite m fav"
proof -
  obtain ts where ts: "lowerTitles favs = Inr ts" and ft: "favTitles = newSet ts"
    using assms(1) by (auto simp: favoriteTitles_def split: sum.splits)
  obtain t where t: "title fav = Some t" "trim (toLowerCase t) \<in> set favTitles"
    using lowerTitles_set [OF ts assms(3)] ft by (auto simp: set_newSet)
  have "mid fav \<in> set (favoriteIds favs)"
    using assms(3) by (simp add: favoriteIds_def set_newSet)
  with assms(2) t show ?thesis
    by (auto simp: isFavorite_def matchesFavorite_def split: option.splits)
qed

lemma not_isWatched:
  assumes "\<not> isWatched (watchedIdSet ws) (watchedTitles ws allMoviesForLookup) m"
      and "w \<in> set ws"
  shows "\<not> matchesWatched allMoviesForLookup m w"
proof -
  have ids: "watchedIdString w \<in> set (watchedIdSet ws)"
    using assms(2) by (simp add: watchedIdSet_def set_newSet)
  have t1: "watchedObjectTitle w = Some t \<Longrightarrow> t \<in> set (watchedTitles ws allMoviesForLookup)" for t
    using assms(2) by (auto simp: watchedTitles_def set_newSet_aux set_newSet set_map_filter_Some)
  have t2: "watchedLookupTitle allMoviesForLookup w = Some t
              \<Longrightarrow> t \<in> set (watchedTitles ws allMoviesForLookup)" for t
    using assms(2) by (auto simp: watchedTitles_def set_newSet_aux set_newSet set_map_filter_Some)
  from assms(1) ids t1 t2 show ?thesis
    by (auto simp: isWatched_def matchesWatched_def split: option.splits)
qed

lemma scoreMovie_Some:
  "scoreMovie ctx m = Some s \<Longrightarrow>
     movieOf s = m \<and> \<not> isFavorite (favIdSet ctx) (favTitleSet ctx) m
     \<and> \<not> isWatched (wIdSet ctx) (wTitleSet ctx) m \<and> 0 < recommendationScore s"
  by (auto simp: scoreMovie_def Let_def split: if_splits)

subsection \<open>The claims\<close>

text \<open>
  C4. Whatever the inputs, the list that \<open>getRecommendedMovies\<close> resolves to has at
  most \<open>limit\<close> entries and is ranked by score descending, equal scores by rating
  descending. The early exit sorts before it cuts, and the full scan sorts, filters and
  cuts, which keep the order. \<open>limit\<close> is a count, a natural number.
\<close>

theorem C4_ranked_and_truncated:
  assumes "fst (getRecommendedMovies yr st localMovies favorites useAPI apiMovies limit
                  watchedMovies allMoviesForLookup userRatings) = Inr result"
  shows "length result \<le> limit \<and> sorted_wrt ranksBefore result"
proof -
  obtain st' where g: "getRecommendedMovies yr st localMovies favorites useAPI apiMovies limit
                  watchedMovies allMoviesForLookup userRatings = (Inr result, st')"
    using assms by (metis prod.collapse)
  from getRecommendedMovies_cases [OF g] show ?thesis
    by (auto simp: finish_length finish_sorted)
qed

theorem C4_ranked_and_truncated_witness:
  "map_sum id (map recommendationScore)
     (fst (getRecommendedMovies 2026 st0
             [otherMovie 2 ''Drama'' ''7.0'', otherMovie 3 ''Drama'' ''9.0'', sameDirector 4]
             (Some [favoriteDrama]) False [] 2 (Some []) [] [])) = Inr [155, 155]
   \<and> map_sum id (map recommendationRating)
     (fst (getRecommendedMovies 2026 st0
             [otherMovie 2 ''Drama'' ''7.0'', otherMovie 3 ''Drama'' ''9.0'', sameDirector 4]
             (Some [favoriteDrama]) False [] 2 (Some []) [] [])) = Inr [9, 8]
   \<and> length (projr (fst (getRecommendedMovies 2026 st0
             [otherMovie 2 ''Drama'' ''7.0'', otherMovie 3 ''Drama'' ''9.0'', sameDirector 4]
             (Some [favoriteDrama]) False [] 2 (Some []) [] []))) \<le> 2
   \<and> sorted_wrt ranksBefore (projr (fst (getRecommendedMovies 2026 st0
             [otherMovie 2 ''Drama'' ''7.0'', otherMovie 3 ''Drama'' ''9.0'', sameDirector 4]
             (Some [favoriteDrama]) False [] 2 (Some []) [] [])))"
proof -
  let ?G = "fst (getRecommendedMovies 2026 st0
             [otherMovie 2 ''Drama'' ''7.0'', otherMovie 3 ''Drama'' ''9.0'', sameDirector 4]
             (Some [favoriteDrama]) False [] 2 (Some []) [] [])"
  have s: "map_sum id (map recommendationScore) ?G = Inr [155, 155]"
    by code_simp
  have r: "map_sum id (map recommendationRating) ?G = Inr [9, 8]"
    by code_simp
  from s obtain R where h: "?G = Inr R"
    by (cases ?G) auto
  from C4_ranked_and_truncated [OF h] h s r show ?thesis by simp
qed

text \<open>
  C3, as the code has it. No returned movie matches a favourite by its id, by the id of
  its local record or by its lower-case trimmed title, and none matches a watched entry
  by any of its four id strings or by title, the entry's title taken from the watched
  object or from the lookup list. A favourite's id is compared with the candidate's id
  and local id only, and as a value, not as a string.
\<close>

theorem C3_excluded_from_output:
  assumes "fst (getRecommendedMovies yr st localMovies favorites useAPI apiMovies limit
                  watchedMovies allMoviesForLookup userRatings) = Inr result"
      and "r \<in> set result"
  shows "(\<forall>fav\<in>set (orEmpty favorites). \<not> matchesFavorite (movieOf r) fav)
         \<and> (\<forall>w\<in>set (orEmpty watchedMovies). \<not> matchesWatched allMoviesForLookup (movieOf r) w)"
proof -
  obtain st' where g: "getRecommendedMovies yr st localMovies favorites useAPI apiMovies limit
                  watchedMovies allMoviesForLookup userRatings = (Inr result, st')"
    using assms(1) by (metis prod.collapse)
  from getRecommendedMovies_cases [OF g] assms(2)
  obtain prefs favTitles ws where ws: "watchedMovies = Some ws"
    and ft: "favoriteTitles (orEmpty favorites) = Inr favTitles"
    and res: "result = finish limit
                 (scanBatches
                    \<lparr>currentYear = yr, precomputedPrefs = prefs,
                     favIdSet = favoriteIds (orEmpty favorites), favTitleSet = favTitles,
                     wIdSet = watchedIdSet ws, wTitleSet = watchedTitles ws allMoviesForLookup\<rparr>
                    limit (candidates localMovies useAPI apiMovies) [])"
    by auto
  let ?ctx = "\<lparr>currentYear = yr, precomputedPrefs = prefs,
                     favIdSet = favoriteIds (orEmpty favorites), favTitleSet = favTitles,
                     wIdSet = watchedIdSet ws, wTitleSet = watchedTitles ws allMoviesForLookup\<rparr>"
  have "r \<in> scannedFrom ?ctx (candidates localMovies useAPI apiMovies) []"
    using assms(2) res finish_from [of limit ?ctx "candidates localMovies useAPI apiMovies" "[]"] by blast
  then obtain m where m: "scoreMovie ?ctx m = Some r"
    by (auto simp: scannedFrom_def)
  from scoreMovie_Some [OF m]
  have mo: "movieOf r = m"
    and nf: "\<not> isFavorite (favoriteIds (orEmpty favorites)) favTitles m"
    and nw: "\<not> isWatched (watchedIdSet ws) (watchedTitles ws allMoviesForLookup) m"
    by simp_all
  show ?thesis
    using not_isFavorite [OF ft nf] not_isWatched [OF nw] ws mo by simp
qed

theorem C3_excluded_from_output_witness:
  "map_sum id (map movieOf)
     (fst (getRecommendedMovies 2026 st0 [favoriteMovie, watchedMovie, recommendedMovie]
             (Some [favoriteMovie]) False [] 20 (Some [WId (IntV 2)])
             [favoriteMovie, watchedMovie, recommendedMovie] []))
     = Inr [normalizeLocalToAPI recommendedMovie]
   \<and> \<not> matchesFavorite (normalizeLocalToAPI recommendedMovie) favoriteMovie
   \<and> \<not> matchesWatched [favoriteMovie, watchedMovie, recommendedMovie]
          (normalizeLocalToAPI recommendedMovie) (WId (IntV 2))"
proof -
  let ?G = "fst (getRecommendedMovies 2026 st0 [favoriteMovie, watchedMovie, recommendedMovie]
             (Some [favoriteMovie]) False [] 20 (Some [WId (IntV 2)])
             [favoriteMovie, watchedMovie, recommendedMovie] [])"
  have v: "map_sum id (map movieOf) ?G = Inr [normalizeLocalToAPI recommendedMovie]"
    by code_simp
  then obtain r where h: "?G = Inr [r]" and m: "movieOf r = normalizeLocalToAPI recommendedMovie"
    by (cases ?G) auto
  have "r \<in> set [r]" by simp
  from C3_excluded_from_output [OF h this] m v show ?thesis by simp
qed

text \<open>
  C3 as stated fails for the remaining id forms on the favourite's side: the favourite
  is stored under the number 550, the catalogue's candidate has the id \<open>tmdb_550\<close>, the
  catalogue id 550 and another title, and it is returned.
\<close>

theorem C3_favorite_id_as_tmdbId_returned:
  "map_sum id (map movieOf)
     (fst (getRecommendedMovies 2026 st0 [] (Some [favorite550]) True [catalogue550] 20
             (Some []) [] [])) = Inr [catalogue550]
   \<and> tmdbId catalogue550 = mid favorite550
   \<and> numericId catalogue550 = String (mid favorite550)"
  by code_simp

text \<open>
  C2. The claim: no director in more than 3 returned entries, also on the early exit. The
  early exit returns the sorted scored movies cut to \<open>limit\<close> without the diversity
  filter. With \<open>limit = 4\<close> and eight matching movies of one director the first batch
  reaches \<open>2 * limit\<close>, and all four returned movies have that director. The repository's
  test "should maintain diversity control efficiently" (fifty movies of one director,
  \<open>limit = 20\<close>) takes the same path and expects at most 3: all twenty returned movies
  have that director. The list of a full scan does keep the bound
  (\<open>full_scan_is_diverse\<close>).
\<close>

theorem C2_early_exit_skips_diversity:
  "map_sum id (map (director \<circ> movieOf))
     (fst (getRecommendedMovies 2026 st0 (map sameDirector [2, 3, 4, 5, 6, 7, 8, 9])
             (Some [favoriteDrama]) False [] 4 (Some []) [] []))
     = Inr [Some ''Director A'', Some ''Director A'', Some ''Director A'', Some ''Director A'']
   \<and> map_sum id (length \<circ> byDirector ''Director A'')
     (fst (getRecommendedMovies 2026 st0 (map sameDirector [2..51])
             (Some [favoriteDrama]) False [] 20 (Some []) [] [])) = Inr 20"
  by code_simp

text \<open>
  C10. The claim: \<open>getRecommendedMovies\<close> never rejects. The first guard of the function
  accepts a \<open>null\<close> watched history, and with a favourite present the history is then
  handed to \<open>extractUserPreferences\<close>, whose \<open>watchedMovies.map\<close> throws: the promise is
  rejected for every value of the other arguments. A favourite without a title rejects
  as well, at \<open>fav.title.toLowerCase()\<close>; the titles of candidates and of watched objects
  are guarded.
\<close>

theorem C10_assembler_rejects:
  "fst (getRecommendedMovies yr st localMovies (Some [favoriteDrama]) useAPI apiMovies limit None
          allMoviesForLookup userRatings) = Inl TypeError
   \<and> fst (getRecommendedMovies 2026 st0 [] (Some [untitledFavorite]) False [] 20 (Some []) [] [])
       = Inl TypeError"
proof -
  have a: "fst (getRecommendedMovies yr st localMovies (Some [favoriteDrama]) useAPI apiMovies limit None
          allMoviesForLookup userRatings) = Inl TypeError"
    by (simp add: getRecommendedMovies_def extractUserPreferences_def)
  have b: "fst (getRecommendedMovies 2026 st0 [] (Some [untitledFavorite]) False [] 20 (Some []) [] [])
       = Inl TypeError"
    by code_simp
  from a b show ?thesis by simp
qed

section \<open>Theorems: the preference extractor\<close>

text \<open>
  A call keeps the state well formed and returns a reference into the heap, so the
  assembler's read of the profile is a read of an object that exists.
\<close>

lemma extract_ref_in_heap:
  assumes "wellFormed st"
      and "extractUserPreferences st favorites watchedMovies allMovies userRatings = Inr (r, st')"
  shows "r < length (heap st') \<and> wellFormed st'"
  using assms
  by (auto simp: extractUserPreferences_def wellFormed_def Let_def alloc_def less_Suc_eq
           split: option.splits if_splits)

text \<open>
  C6, as the code has it. When the working set (the favourites and the watched movies
  that resolve) is not empty, or the key is already in the cache, the second of two calls
  with the same arguments returns the reference the first call returned and leaves the
  state as it was. When the working set is empty and the key is not in the cache, each
  call returns a new object: the two objects are equal, their references are not.
\<close>

theorem C6_second_call_same_object:
  assumes "extractUserPreferences st favorites (Some ws) allMovies userRatings = Inr (r1, st1)"
  shows "(orEmpty favorites @ watchedMoviesData allMovies ws \<noteq> []
            \<or> preferencesCache st (makeCacheKey (orEmpty favorites) ws userRatings) \<noteq> None
          \<longrightarrow> extractUserPreferences st1 favorites (Some ws) allMovies userRatings = Inr (r1, st1))
       \<and> (orEmpty favorites @ watchedMoviesData allMovies ws = []
            \<and> preferencesCache st (makeCacheKey (orEmpty favorites) ws userRatings) = None
          \<longrightarrow> (\<exists>st2. extractUserPreferences st1 favorites (Some ws) allMovies userRatings
                         = Inr (Suc r1, st2)
                    \<and> heap st2 ! r1 = emptyPreferences \<and> heap st2 ! Suc r1 = emptyPreferences))"
  using assms
  by (auto simp: extractUserPreferences_def Let_def alloc_def nth_append
           split: option.splits if_splits)

theorem C6_second_call_same_object_witness:
  "extractUserPreferences st0 (Some [favoriteDrama]) (Some []) [] [] = Inr (0, dramaProfileState)
   \<and> extractUserPreferences dramaProfileState (Some [favoriteDrama]) (Some []) [] []
       = Inr (0, dramaProfileState)"
proof -
  have h: "extractUserPreferences st0 (Some [favoriteDrama]) (Some []) [] [] = Inr (0, dramaProfileState)"
    by (simp add: extractUserPreferences_def Let_def alloc_def st0_def dramaProfileState_def
          watchedMoviesData_def)
  have ne: "orEmpty (Some [favoriteDrama]) @ watchedMoviesData [] [] \<noteq> []"
    by simp
  from C6_second_call_same_object [OF h] ne h show ?thesis by blast
qed

text \<open>
  C6 as stated fails for empty inputs: from an empty cache the first call returns the
  object at reference 0 and the second the object at reference 1, with equal contents.
\<close>

theorem C6_empty_history_fresh_object:
  "extractUserPreferences st0 (Some []) (Some []) [] [] = Inr (0, emptyProfileState)
   \<and> extractUserPreferences emptyProfileState (Some []) (Some []) [] []
       = Inr (1, \<lparr>heap = [emptyPreferences, emptyPreferences], preferencesCache = Map.empty\<rparr>)"
  by (simp add: extractUserPreferences_def Let_def alloc_def st0_def emptyProfileState_def
        makeCacheKey_def sortIds_def watchedMoviesData_def)

text \<open>
  C7. The claim: without explicit ratings the floor is \<open>max(7.5, baseline - 0.5)\<close> with the
  baseline a mean in which favourites weigh one and a half times. The code's comment says
  the weight is taken out again for the threshold; the code takes it out of the
  favourites' sum and divides their count by it as well, and takes nothing out when only
  one of the two lists has ratings. A favourite rated 9.0 and a watched movie rated 6.0 give the
  floor 8.5, where the weighted mean 7.8 gives 7.5; a single favourite rated 8.0 gives
  11.5, above every rating of the catalogue, where its mean 8.0 gives 7.5.
\<close>

theorem C7_minRating_not_weighted_average:
  "map_option minRating
     (profileOf (extractUserPreferences st0 (Some [ratedMovie 1 ''9.0''])
                   (Some [WObj (ratedMovie 2 ''6.0'')]) [] [])) = Some (17 / 2)
   \<and> claimedMinRating [ratedMovie 1 ''9.0''] [ratedMovie 2 ''6.0''] [] = 15 / 2
   \<and> map_option minRating
     (profileOf (extractUserPreferences st0 (Some [ratedMovie 1 ''8.0'']) (Some []) [] []))
     = Some (23 / 2)
   \<and> claimedMinRating [ratedMovie 1 ''8.0''] [] [] = 15 / 2"
  by code_simp

section \<open>Theorems: the catalogue client\<close>

lemma getCached_miss: "fst (getCached clk apiCache k) = None \<Longrightarrow> \<exists>c. getCached clk apiCache k = (None, c)"
  by (cases "getCached clk apiCache k") auto









text \<open>
  A failed request (a network error, a status that is not 2xx, a body that is not JSON)
  ends a catalogue operation with the empty list.
\<close>

lemma failed_request_gives_empty:
  assumes "\<And>k. fst (getCached clk apiCache k) = None"
  shows "((\<forall>p. okData (discoverMovie cat p) = None)
            \<longrightarrow> fst (searchMoviesByGenre clk cat apiCache g opts) = []
                \<and> fst (getTopRatedMovies clk cat apiCache pg limit s) = [])
       \<and> (okData (searchMovie cat (trim q) pg) = None
            \<longrightarrow> fst (searchMoviesInTMDB clk cat apiCache q pg limit) = [])
       \<and> (okData (searchPerson cat n) = None
            \<longrightarrow> fst (searchMoviesByDirector clk cat apiCache n) = []
                \<and> fst (searchMoviesByActor clk cat apiCache n) = [])"
proof -
  have c: "\<exists>c. getCached clk apiCache k = (None, c)" for k
    using getCached_miss [OF assms] by blast
  obtain c1 where c1: "getCached clk apiCache
        (TopRatedKey (sortKeyPart s) pg limit (isDefaultSort s \<and> 2 < pg)) = (None, c1)"
    using c by blast
  obtain c2 where c2: "getCached clk apiCache (SearchKey (toLowerCase q) pg) = (None, c2)"
    using c by blast
  obtain c3 where c3: "getCached clk apiCache (DirectorKey (toLowerCase n)) = (None, c3)"
    using c by blast
  obtain c4 where c4: "getCached clk apiCache (ActorKey (toLowerCase n)) = (None, c4)"
    using c by blast
  have g: "(\<forall>p. okData (discoverMovie cat p) = None)
             \<Longrightarrow> fst (searchMoviesByGenre clk cat apiCache g opts) = []"
  proof -
    assume f: "\<forall>p. okData (discoverMovie cat p) = None"
    have k: "\<And>ids. \<exists>c. getCached clk apiCache
               (GenreKey ids (sortKeyPart (opt_sortBy opts)) (opt_minYear opts)
                  (opt_maxYear opts) (opt_minRating opts) (opt_page opts)) = (None, c)"
      using c by blast
    show ?thesis
    proof (cases "GENRE_MAP g")
      case None
      then show ?thesis by (simp add: searchMoviesByGenre_def)
    next
      case (Some e)
      show ?thesis
      proof (cases e)
        case (Single i)
        obtain c5 where "getCached clk apiCache
               (GenreKey [i] (sortKeyPart (opt_sortBy opts)) (opt_minYear opts)
                  (opt_maxYear opts) (opt_minRating opts) (opt_page opts)) = (None, c5)"
          using k by blast
        with Some Single f show ?thesis
          by (simp add: searchMoviesByGenre_def Let_def)
      next
        case (Merged ns)
        obtain c5 where "getCached clk apiCache
               (GenreKey ns (sortKeyPart (opt_sortBy opts)) (opt_minYear opts)
                  (opt_maxYear opts) (opt_minRating opts) (opt_page opts)) = (None, c5)"
          using k by blast
        with Some Merged f show ?thesis
          by (simp add: searchMoviesByGenre_def Let_def)
      next
        case NullEntry
        with Some show ?thesis by (simp add: searchMoviesByGenre_def)
      qed
    qed
  qed
  have t: "(\<forall>p. okData (discoverMovie cat p) = None)
             \<Longrightarrow> fst (getTopRatedMovies clk cat apiCache pg limit s) = []"
    by (simp add: getTopRatedMovies_def c1 Let_def)
  have q: "okData (searchMovie cat (trim q) pg) = None
             \<Longrightarrow> fst (searchMoviesInTMDB clk cat apiCache q pg limit) = []"
    by (simp add: searchMoviesInTMDB_def c2)
  have d: "okData (searchPerson cat n) = None
             \<Longrightarrow> fst (searchMoviesByDirector clk cat apiCache n) = []"
    by (simp add: searchMoviesByDirector_def c3 firstPerson_def)
  have a: "okData (searchPerson cat n) = None
             \<Longrightarrow> fst (searchMoviesByActor clk cat apiCache n) = []"
    by (simp add: searchMoviesByActor_def c4 firstPerson_def)
  from g t q d a show ?thesis by blast
qed




text \<open>
  The genre-pair test: \<open>hasIncompatibleGenres\<close> is documented in the source as "returns
  true if movie should be excluded", and no query calls it. The genre query for
  Animation returns an animated documentary, a pair the test names.
\<close>

lemma genre_query_keeps_incompatible_pair:
  "fst (searchMoviesByGenre clk0 cat0 Map.empty ''Animasyon'' (genreOptions 20))
     = [convertTMDBToMovieFormat drawnFacts]
   \<and> hasIncompatibleGenres (convertTMDBToMovieFormat drawnFacts) 16"
  by code_simp

text \<open>
  C9. The claim: calls whose parameters differ in a way that changes the result, the
  limit included, use different cache keys. The key of \<open>searchMoviesByGenre\<close> has the
  genre ids, the sort, the years, the rating floor and the page, and the key of
  \<open>searchMoviesInTMDB\<close> the query and the page; both store a list already cut to the
  limit. (\<open>getTopRatedMovies\<close> puts the limit in its key.) A call with limit 1 followed by
  the same call with limit 20 returns the one cached movie, where the call with limit
  20 alone returns two.
\<close>

theorem C9_limit_not_in_cache_key:
  "map title (fst (searchMoviesByGenre clk0 cat0 Map.empty ''Komedi'' (genreOptions 1)))
     = [Some ''Comedy One'']
   \<and> map title (fst (searchMoviesByGenre clk0 cat0
                        (snd (searchMoviesByGenre clk0 cat0 Map.empty ''Komedi'' (genreOptions 1)))
                        ''Komedi'' (genreOptions 20)))
     = [Some ''Comedy One'']
   \<and> map title (fst (searchMoviesByGenre clk0 cat0 Map.empty ''Komedi'' (genreOptions 20)))
     = [Some ''Comedy One'', Some ''Comedy Two'']
   \<and> map title (fst (searchMoviesInTMDB clk0 cat0
                        (snd (searchMoviesInTMDB clk0 cat0 Map.empty ''comedy'' 1 1)) ''comedy'' 1 20))
     = [Some ''Comedy One'']
   \<and> map title (fst (searchMoviesInTMDB clk0 cat0 Map.empty ''comedy'' 1 20))
     = [Some ''Comedy One'', Some ''Comedy Two'']"
  by code_simp

end
